theory Spec2Isabelle
  imports Complex_Main "HOL-Library.AList" "HOL-Library.Char_ord" "HOL-Library.List_Lexorder"
begin

section \<open>Conventions of the embedding\<close>

text \<open>
  The development embeds the identifier chain of the classifier: the similarity scorer
  (\<^verbatim>\<open>fuzzy_matcher.py\<close>), the value normalisation of the extractor
  (\<^verbatim>\<open>entity_extractor.py\<close>), the entity linker (\<^verbatim>\<open>entity_linker.py\<close>) and the page
  assigner (\<^verbatim>\<open>page_assigner.py\<close>).

  \<^item> A Python \<^verbatim>\<open>str\<close> is a \<open>string\<close>, and a \<open>char\<close> is a code point below 256: the
    development is about strings of such code points only, and the character classes,
    white space sets and \<^verbatim>\<open>str.lower\<close> are those of Python on them. Strings with other
    code points are outside the embedding.
  \<^item> A Python \<^verbatim>\<open>float\<close> is a \<open>real\<close>, the exact value of a finite double (no NaN, no
    infinity). Comparisons, \<^verbatim>\<open>max\<close> and \<^verbatim>\<open>min\<close> are exact on doubles and are those of the
    reals. The operations that round (\<^verbatim>\<open>+\<close>, \<^verbatim>\<open>-\<close>, \<^verbatim>\<open>*\<close>, \<^verbatim>\<open>/\<close>, \<^verbatim>\<open>round(x, 3)\<close>, and
    reading a decimal literal) are a parameter (record \<open>arith\<close>): every theorem with a
    free \<open>fl\<close> holds for the arithmetic of doubles in particular.
  \<^item> An exception is a value \<open>Inl e\<close> of the result type \<open>error + 'a\<close>.
  \<^item> The three \<^verbatim>\<open>rapidfuzz.fuzz\<close> functions are library code and are taken as a parameter
    (record \<open>fuzz\<close>).
  \<^item> A cluster object that the linker mutates in place is addressed by its index in the
    list \<^verbatim>\<open>clusters\<close>: clusters are only ever appended to that list.
\<close>

datatype error = ValueError

definition ebind :: "error + 'a \<Rightarrow> ('a \<Rightarrow> error + 'b) \<Rightarrow> error + 'b" where
  "ebind m f = (case m of Inl e \<Rightarrow> Inl e | Inr x \<Rightarrow> f x)"

text \<open>A \<^verbatim>\<open>for\<close> loop over \<open>xs\<close> whose body may raise: the first exception ends the loop.\<close>

fun efold :: "('a \<Rightarrow> 's \<Rightarrow> error + 's) \<Rightarrow> 'a list \<Rightarrow> 's \<Rightarrow> error + 's" where
  "efold f [] s = Inr s"
| "efold f (x # xs) s = (case f x s of Inl e \<Rightarrow> Inl e | Inr s' \<Rightarrow> efold f xs s')"

text \<open>A list comprehension \<^verbatim>\<open>[f(x) for x in xs]\<close> whose element expression may raise.\<close>

fun emap :: "('a \<Rightarrow> error + 'b) \<Rightarrow> 'a list \<Rightarrow> error + 'b list" where
  "emap f [] = Inr []"
| "emap f (x # xs) =
     (case f x of Inl e \<Rightarrow> Inl e
      | Inr y \<Rightarrow> (case emap f xs of Inl e \<Rightarrow> Inl e | Inr ys \<Rightarrow> Inr (y # ys)))"

section \<open>Floating point\<close>

text \<open>The rounding operations on floats: \<open>fl_lit\<close> reads a decimal literal such as
  \<^verbatim>\<open>0.85\<close>, \<open>fl_round3\<close> is \<^verbatim>\<open>round(x, 3)\<close>, the others are the four operators.\<close>

record arith =
  fl_lit :: "real \<Rightarrow> real"
  fl_add :: "real \<Rightarrow> real \<Rightarrow> real"
  fl_sub :: "real \<Rightarrow> real \<Rightarrow> real"
  fl_mul :: "real \<Rightarrow> real \<Rightarrow> real"
  fl_div :: "real \<Rightarrow> real \<Rightarrow> real"
  fl_round3 :: "real \<Rightarrow> real"

section \<open>Strings\<close>

definition is_digit :: "char \<Rightarrow> bool" where
  "is_digit c = (c \<in> set ''0123456789'')"

definition is_lower :: "char \<Rightarrow> bool" where
  "is_lower c = (c \<in> set ''abcdefghijklmnopqrstuvwxyz'')"

definition is_upper :: "char \<Rightarrow> bool" where
  "is_upper c = (c \<in> set ''ABCDEFGHIJKLMNOPQRSTUVWXYZ'')"

text \<open>The class \<^verbatim>\<open>[A-Za-z0-9]\<close>.\<close>

definition is_alnum :: "char \<Rightarrow> bool" where
  "is_alnum c = (is_upper c \<or> is_lower c \<or> is_digit c)"

text \<open>White space: tab, line feed, vertical tab, form feed, carriage return, the four
  separators \<^verbatim>\<open>\x1c\<close> to \<^verbatim>\<open>\x1f\<close>, space, \<^verbatim>\<open>\x85\<close> and \<^verbatim>\<open>\xa0\<close>.\<close>

definition is_space :: "char \<Rightarrow> bool" where
  "is_space c = (c \<in> set [CHR 0x09, CHR 0x0A, CHR 0x0B, CHR 0x0C, CHR 0x0D,
                          CHR 0x1C, CHR 0x1D, CHR 0x1E, CHR 0x1F, CHR 0x20, CHR 0x85, CHR 0xA0])"

text \<open>The capital letters of the code points from \<^verbatim>\<open>\xc0\<close> to \<^verbatim>\<open>\xde\<close> (all but the
  multiplication sign \<^verbatim>\<open>\xd7\<close>) and their small letters, \<^verbatim>\<open>\x20\<close> further up.\<close>

definition latin1_upper :: string where
  "latin1_upper =
     [CHR 0xC0, CHR 0xC1, CHR 0xC2, CHR 0xC3, CHR 0xC4, CHR 0xC5, CHR 0xC6,
      CHR 0xC7, CHR 0xC8, CHR 0xC9, CHR 0xCA, CHR 0xCB, CHR 0xCC, CHR 0xCD,
      CHR 0xCE, CHR 0xCF, CHR 0xD0, CHR 0xD1, CHR 0xD2, CHR 0xD3, CHR 0xD4,
      CHR 0xD5, CHR 0xD6, CHR 0xD8, CHR 0xD9, CHR 0xDA, CHR 0xDB, CHR 0xDC,
      CHR 0xDD, CHR 0xDE]"

definition latin1_lower :: string where
  "latin1_lower =
     [CHR 0xE0, CHR 0xE1, CHR 0xE2, CHR 0xE3, CHR 0xE4, CHR 0xE5, CHR 0xE6,
      CHR 0xE7, CHR 0xE8, CHR 0xE9, CHR 0xEA, CHR 0xEB, CHR 0xEC, CHR 0xED,
      CHR 0xEE, CHR 0xEF, CHR 0xF0, CHR 0xF1, CHR 0xF2, CHR 0xF3, CHR 0xF4,
      CHR 0xF5, CHR 0xF6, CHR 0xF8, CHR 0xF9, CHR 0xFA, CHR 0xFB, CHR 0xFC,
      CHR 0xFD, CHR 0xFE]"

text \<open>\<^verbatim>\<open>str.lower\<close>, character by character: on code points below 256 it maps the
  capital letters above and nothing else, and every result is one such code point.\<close>

definition lower_char :: "char \<Rightarrow> char" where
  "lower_char c =
     (case map_of (zip (''ABCDEFGHIJKLMNOPQRSTUVWXYZ'' @ latin1_upper)
                       (''abcdefghijklmnopqrstuvwxyz'' @ latin1_lower)) c of
        None \<Rightarrow> c | Some d \<Rightarrow> d)"

definition lower :: "string \<Rightarrow> string" where
  "lower s = map lower_char s"

text \<open>\<^verbatim>\<open>str.upper\<close> on a string of characters of \<^verbatim>\<open>[A-Za-z0-9]\<close>, the only strings the
  extractor applies it to.\<close>

definition upper_ascii :: "string \<Rightarrow> string" where
  "upper_ascii s =
     map (\<lambda>c. case map_of (zip ''abcdefghijklmnopqrstuvwxyz'' ''ABCDEFGHIJKLMNOPQRSTUVWXYZ'') c of
                None \<Rightarrow> c | Some d \<Rightarrow> d) s"

text \<open>\<^verbatim>\<open>s.strip(chars)\<close> for a predicate on characters; \<^verbatim>\<open>s.strip()\<close> is \<open>strip\<close>.\<close>

definition strip_chars :: "(char \<Rightarrow> bool) \<Rightarrow> string \<Rightarrow> string" where
  "strip_chars p s = rev (dropWhile p (rev (dropWhile p s)))"

definition strip :: "string \<Rightarrow> string" where
  "strip s = strip_chars is_space s"

text \<open>\<^verbatim>\<open>s.replace(a, b)\<close> for single characters \<open>a\<close> and \<open>b\<close>.\<close>

definition replace_char :: "char \<Rightarrow> char \<Rightarrow> string \<Rightarrow> string" where
  "replace_char a b s = map (\<lambda>c. if c = a then b else c) s"

text \<open>\<^verbatim>\<open>s.split(sep)\<close> for a single character \<open>sep\<close>: one more part than there are
  separators, empty parts included.\<close>

fun split_on :: "char \<Rightarrow> string \<Rightarrow> string list" where
  "split_on sep [] = [[]]"
| "split_on sep (c # cs) =
     (if c = sep then [] # split_on sep cs
      else (case split_on sep cs of [] \<Rightarrow> [[c]] | p # ps \<Rightarrow> (c # p) # ps))"

text \<open>\<^verbatim>\<open>s.split()\<close>: the maximal runs of characters that are not white space.\<close>

fun split_ws_acc :: "string \<Rightarrow> string \<Rightarrow> string list" where
  "split_ws_acc cur [] = (if cur = [] then [] else [rev cur])"
| "split_ws_acc cur (c # cs) =
     (if is_space c then (if cur = [] then split_ws_acc [] cs else rev cur # split_ws_acc [] cs)
      else split_ws_acc (c # cur) cs)"

definition split_ws :: "string \<Rightarrow> string list" where
  "split_ws s = split_ws_acc [] s"

text \<open>\<^verbatim>\<open>sep.join(parts)\<close>.\<close>

fun join :: "string \<Rightarrow> string list \<Rightarrow> string" where
  "join sep [] = []"
| "join sep [p] = p"
| "join sep (p # q # ps) = p @ sep @ join sep (q # ps)"

text \<open>\<^verbatim>\<open>s.zfill(width)\<close>: zeros are inserted after a leading sign.\<close>

definition zfill :: "nat \<Rightarrow> string \<Rightarrow> string" where
  "zfill width s =
     (if width \<le> length s then s
      else (case s of
              [] \<Rightarrow> replicate width CHR ''0''
            | c # cs \<Rightarrow>
                if c = CHR ''+'' \<or> c = CHR ''-''
                then c # replicate (width - length s) CHR ''0'' @ cs
                else replicate (width - length s) CHR ''0'' @ s))"

definition digit_val :: "char \<Rightarrow> nat" where
  "digit_val c = (case map_of (zip ''0123456789'' [0, 1, 2, 3, 4, 5, 6, 7, 8, 9]) c of
                    None \<Rightarrow> 0 | Some d \<Rightarrow> d)"

text \<open>The digit part of an integer literal: decimal digits, with single underscores
  allowed between two digits only. \<open>prev\<close> tells whether the previous character was a
  digit.\<close>

fun parse_digits :: "bool \<Rightarrow> nat \<Rightarrow> string \<Rightarrow> nat option" where
  "parse_digits prev acc [] = (if prev then Some acc else None)"
| "parse_digits prev acc (c # cs) =
     (if is_digit c then parse_digits True (10 * acc + digit_val c) cs
      else if c = CHR ''_'' \<and> prev then parse_digits False acc cs
      else None)"

text \<open>The white space that \<^verbatim>\<open>int\<close> drops around a literal: that of \<^verbatim>\<open>str.strip\<close> without
  the four separators \<^verbatim>\<open>\x1c\<close> to \<^verbatim>\<open>\x1f\<close>.\<close>

definition is_int_space :: "char \<Rightarrow> bool" where
  "is_int_space c = (c \<in> set [CHR 0x09, CHR 0x0A, CHR 0x0B, CHR 0x0C, CHR 0x0D,
                              CHR 0x20, CHR 0x85, CHR 0xA0])"

text \<open>\<^verbatim>\<open>int(s)\<close> on a string: surrounding white space is dropped, one sign is allowed;
  anything else raises \<^verbatim>\<open>ValueError\<close>.\<close>

definition py_int :: "string \<Rightarrow> error + int" where
  "py_int s =
     (case strip_chars is_int_space s of
        [] \<Rightarrow> Inl ValueError
      | c # cs \<Rightarrow>
          if c = CHR ''-'' then
            (case parse_digits False 0 cs of None \<Rightarrow> Inl ValueError | Some n \<Rightarrow> Inr (- int n))
          else if c = CHR ''+'' then
            (case parse_digits False 0 cs of None \<Rightarrow> Inl ValueError | Some n \<Rightarrow> Inr (int n))
          else
            (case parse_digits False 0 (c # cs) of None \<Rightarrow> Inl ValueError | Some n \<Rightarrow> Inr (int n)))"

section \<open>Similarity scorer (\<^verbatim>\<open>fuzzy_matcher.py\<close>)\<close>

text \<open>The functions of \<^verbatim>\<open>rapidfuzz.fuzz\<close> (or of the fallback class) that the matcher calls.\<close>

record fuzz =
  ratio :: "string \<Rightarrow> string \<Rightarrow> real"
  token_sort_ratio :: "string \<Rightarrow> string \<Rightarrow> real"
  partial_ratio :: "string \<Rightarrow> string \<Rightarrow> real"

definition scale_score :: "arith \<Rightarrow> real \<Rightarrow> real" where
  "scale_score fl raw = max 0 (min (fl_div fl raw 100) 1)"

text \<open>\<^verbatim>\<open>re.sub(r"\s+", " ", value)\<close>: every maximal run of white space becomes one space.
  \<open>in_run\<close> tells whether the previous character was white space.\<close>

fun collapse_ws_from :: "bool \<Rightarrow> string \<Rightarrow> string" where
  "collapse_ws_from in_run [] = []"
| "collapse_ws_from in_run (c # cs) =
     (if is_space c then (if in_run then collapse_ws_from True cs
                          else CHR '' '' # collapse_ws_from True cs)
      else c # collapse_ws_from False cs)"

definition collapse_ws :: "string \<Rightarrow> string" where
  "collapse_ws s = collapse_ws_from False s"

definition normalize_name :: "string \<Rightarrow> string" where
  "normalize_name value =
     (let value = lower (strip value);
          value = filter (\<lambda>c. is_lower c \<or> is_digit c \<or> is_space c) value
      in collapse_ws value)"

definition normalize_mrn :: "string \<Rightarrow> string" where
  "normalize_mrn value = filter (\<lambda>c. is_lower c \<or> is_digit c) (lower value)"

definition normalize_dob :: "string \<Rightarrow> error + string" where
  "normalize_dob value =
     (let value = replace_char CHR ''.'' CHR ''/'' (replace_char CHR ''-'' CHR ''/'' value);
          parts = split_on CHR ''/'' value
      in case parts of
           [month, day, year] \<Rightarrow>
             ebind (if length year = 2
                    then ebind (py_int year)
                           (\<lambda>n. Inr (if n < 50 then ''20'' @ year else ''19'' @ year))
                    else Inr year)
               (\<lambda>year. Inr (zfill 2 month @ ''/'' @ zfill 2 day @ ''/'' @ zfill 4 year))
         | _ \<Rightarrow> Inr value)"

definition normalize_phone :: "string \<Rightarrow> string" where
  "normalize_phone value =
     (let digits = filter is_digit value
      in if 10 \<le> length digits then drop (length digits - 10) digits else digits)"

definition score_name :: "arith \<Rightarrow> fuzz \<Rightarrow> string \<Rightarrow> string \<Rightarrow> real" where
  "score_name fl fz a b =
     (let a_clean = normalize_name a; b_clean = normalize_name b
      in scale_score fl (token_sort_ratio fz a_clean b_clean))"

definition score_mrn :: "arith \<Rightarrow> fuzz \<Rightarrow> string \<Rightarrow> string \<Rightarrow> real" where
  "score_mrn fl fz a b =
     (let a_norm = normalize_mrn a; b_norm = normalize_mrn b
      in if a_norm = [] \<or> b_norm = [] then 0
         else if a_norm = b_norm then 1 else scale_score fl (ratio fz a_norm b_norm))"

definition score_dob :: "string \<Rightarrow> string \<Rightarrow> error + real" where
  "score_dob a b =
     ebind (normalize_dob a) (\<lambda>x. ebind (normalize_dob b) (\<lambda>y. Inr (if x = y then 1 else 0)))"

definition score_phone :: "arith \<Rightarrow> fuzz \<Rightarrow> string \<Rightarrow> string \<Rightarrow> real" where
  "score_phone fl fz a b =
     (let a_norm = normalize_phone a; b_norm = normalize_phone b
      in if a_norm = [] \<or> b_norm = [] then 0
         else if a_norm = b_norm then 1 else scale_score fl (partial_ratio fz a_norm b_norm))"

section \<open>Value normalisation of the extractor (\<^verbatim>\<open>entity_extractor.py\<close>)\<close>

text \<open>\<^verbatim>\<open>_truncate_value\<close>: the part before the first line feed if there is one, else
  the part before the first carriage return if there is one.\<close>

definition truncate_value :: "string \<Rightarrow> string" where
  "truncate_value value =
     (if CHR 0x0A \<in> set value then (case split_on CHR 0x0A value of [] \<Rightarrow> value | p # _ \<Rightarrow> p)
      else if CHR 0x0D \<in> set value then (case split_on CHR 0x0D value of [] \<Rightarrow> value | p # _ \<Rightarrow> p)
      else value)"

text \<open>\<^verbatim>\<open>str.capitalize\<close> is taken as the parameter \<open>cap\<close>: on letters such as \<^verbatim>\<open>\xff\<close> or
  \<^verbatim>\<open>\xb5\<close> its result has a code point above 255.\<close>

definition normalize_value :: "(string \<Rightarrow> string) \<Rightarrow> string \<Rightarrow> string \<Rightarrow> string" where
  "normalize_value cap kind value =
     (let value = strip value
      in if kind = ''mrn'' then upper_ascii (filter is_alnum value)
         else if kind = ''dob'' then replace_char CHR ''.'' CHR ''/'' value
         else if kind = ''name'' then
           (let tokens = map (strip_chars (\<lambda>c. c \<in> set '',:''))
                           (filter (\<lambda>token. strip_chars (\<lambda>c. c \<in> set '',:'') token \<noteq> [])
                              (split_ws value))
            in join '' '' (map cap tokens))
         else value)"

section \<open>Data model (\<^verbatim>\<open>pipeline.py\<close>, \<^verbatim>\<open>config.py\<close>)\<close>

record IdentifierMatch =
  im_kind :: string
  im_value :: string
  im_confidence :: real
  im_bbox :: "int \<times> int \<times> int \<times> int"
  im_word_indices :: "int list"

record PageEntities =
  pe_page_index :: int
  pe_identifiers :: "IdentifierMatch list"

record LinkedIdentifier =
  li_kind :: string
  li_value :: string
  li_confidence :: real
  li_sources :: "(int \<times> int list) list"

record LinkedPatient =
  lp_patient_id :: string
  lp_identifiers :: "LinkedIdentifier list"
  lp_pages :: "int list"
  lp_score :: real

text \<open>The fields of \<^verbatim>\<open>Settings\<close> that the linker and the assigner read.\<close>

record Settings =
  name_match_threshold :: real
  mrn_match_threshold :: real
  dob_match_threshold :: real
  phone_match_threshold :: real
  linker_strict_mode :: bool
  assign_min_confidence :: real
  assign_name_weight :: real
  assign_mrn_weight :: real
  assign_dob_weight :: real
  assign_phone_weight :: real
  assign_ambiguity_margin :: real
  assign_allow_unassigned :: bool

text \<open>The defaults of the class \<^verbatim>\<open>Settings\<close>, decimal literals read as floats.\<close>

definition default_settings :: "arith \<Rightarrow> Settings" where
  "default_settings fl =
     \<lparr>name_match_threshold = fl_lit fl (85 / 100), mrn_match_threshold = fl_lit fl (99 / 100),
      dob_match_threshold = fl_lit fl (99 / 100), phone_match_threshold = fl_lit fl (95 / 100),
      linker_strict_mode = False, assign_min_confidence = fl_lit fl (6 / 10),
      assign_name_weight = fl_lit fl (3 / 10), assign_mrn_weight = fl_lit fl (4 / 10),
      assign_dob_weight = fl_lit fl (2 / 10), assign_phone_weight = fl_lit fl (1 / 10),
      assign_ambiguity_margin = fl_lit fl (5 / 100), assign_allow_unassigned = True\<rparr>"

section \<open>Entity linker (\<^verbatim>\<open>entity_linker.py\<close>)\<close>

text \<open>\<^verbatim>\<open>identifiers\<close> is a \<^verbatim>\<open>dict\<close> from kind to \<^verbatim>\<open>LinkedIdentifier\<close>: an association list in
  insertion order, read with \<open>map_of\<close> and written with \<open>AList.update\<close>.\<close>

record ClusterCandidate =
  cc_patient_id :: string
  cc_identifiers :: "(string \<times> LinkedIdentifier) list"
  cc_pages :: "int list"
  cc_score :: real

text \<open>The state the linker works on: the list \<^verbatim>\<open>clusters\<close> of \<^verbatim>\<open>link\<close> and the next value of
  the counter \<^verbatim>\<open>self._next_patient\<close>, which \<^verbatim>\<open>__init__\<close> sets to \<^verbatim>\<open>itertools.count(1)\<close>.\<close>

record linker_state =
  clusters :: "ClusterCandidate list"
  next_patient :: nat

definition new_linker :: nat where
  "new_linker = 1"

text \<open>Which \<^verbatim>\<open>return\<close> of \<^verbatim>\<open>_assign_identifier\<close> was taken, in source order.\<close>

datatype branch = Merged | Attached | StrictIgnored | MergedLate | Created

definition digit_char :: "nat \<Rightarrow> char" where
  "digit_char d = ''0123456789'' ! d"

text \<open>\<^verbatim>\<open>str(n)\<close> for a natural number.\<close>

fun str_nat :: "nat \<Rightarrow> string" where
  "str_nat n = (if n < 10 then [digit_char n] else str_nat (n div 10) @ [digit_char (n mod 10)])"

declare str_nat.simps [simp del]

text \<open>\<^verbatim>\<open>f"patient_{n:03d}"\<close>.\<close>

definition format_patient_id :: "nat \<Rightarrow> string" where
  "format_patient_id n = ''patient_'' @ zfill 3 (str_nat n)"

definition match_identifier :: "arith \<Rightarrow> fuzz \<Rightarrow> ClusterCandidate \<Rightarrow> IdentifierMatch \<Rightarrow> error + real" where
  "match_identifier fl fz cluster identifier =
     (case map_of (cc_identifiers cluster) (im_kind identifier) of
        None \<Rightarrow> Inr 0
      | Some linked \<Rightarrow>
          if im_kind identifier = ''name''
            then Inr (score_name fl fz (li_value linked) (im_value identifier))
          else if im_kind identifier = ''mrn''
            then Inr (score_mrn fl fz (li_value linked) (im_value identifier))
          else if im_kind identifier = ''dob''
            then score_dob (li_value linked) (im_value identifier)
          else if im_kind identifier = ''phone''
            then Inr (score_phone fl fz (li_value linked) (im_value identifier))
          else Inr 0)"

definition threshold_for :: "arith \<Rightarrow> Settings \<Rightarrow> string \<Rightarrow> real" where
  "threshold_for fl settings kind =
     (case map_of [(''name'', name_match_threshold settings),
                   (''mrn'', mrn_match_threshold settings),
                   (''dob'', dob_match_threshold settings),
                   (''phone'', phone_match_threshold settings)] kind of
        None \<Rightarrow> fl_lit fl (8 / 10) | Some t \<Rightarrow> t)"

definition merge_identifier ::
  "ClusterCandidate \<Rightarrow> IdentifierMatch \<Rightarrow> int \<Rightarrow> real \<Rightarrow> ClusterCandidate" where
  "merge_identifier cluster identifier page_index score =
     (let identifiers =
            (case map_of (cc_identifiers cluster) (im_kind identifier) of
               None \<Rightarrow>
                 AList.update (im_kind identifier)
                   \<lparr>li_kind = im_kind identifier, li_value = im_value identifier,
                    li_confidence = im_confidence identifier,
                    li_sources = [(page_index, im_word_indices identifier)]\<rparr>
                   (cc_identifiers cluster)
             | Some existing \<Rightarrow>
                 AList.update (im_kind identifier)
                   (existing
                      \<lparr>li_value := (if li_confidence existing < score then im_value identifier
                                    else li_value existing),
                       li_confidence := max (li_confidence existing) (im_confidence identifier),
                       li_sources := li_sources existing @ [(page_index, im_word_indices identifier)]\<rparr>)
                   (cc_identifiers cluster));
          pages = (if page_index \<in> set (cc_pages cluster) then cc_pages cluster
                   else cc_pages cluster @ [page_index])
      in cluster\<lparr>cc_identifiers := identifiers, cc_pages := pages,
                 cc_score := max (cc_score cluster) (im_confidence identifier)\<rparr>)"

text \<open>\<^verbatim>\<open>_create_cluster\<close>: takes the next counter value, appends the new cluster to
  \<^verbatim>\<open>clusters\<close> and returns its index.\<close>

definition create_cluster :: "linker_state \<Rightarrow> IdentifierMatch \<Rightarrow> int \<Rightarrow> linker_state \<times> nat" where
  "create_cluster st identifier page_index =
     (let patient_id = format_patient_id (next_patient st);
          cluster =
            \<lparr>cc_patient_id = patient_id,
             cc_identifiers =
               [(im_kind identifier,
                 \<lparr>li_kind = im_kind identifier, li_value = im_value identifier,
                  li_confidence = im_confidence identifier,
                  li_sources = [(page_index, im_word_indices identifier)]\<rparr>)],
             cc_pages = [page_index],
             cc_score = im_confidence identifier\<rparr>
      in (\<lparr>clusters = clusters st @ [cluster], next_patient = Suc (next_patient st)\<rparr>,
          length (clusters st)))"

text \<open>The scoring loop of \<^verbatim>\<open>_assign_identifier\<close>; \<open>i\<close> is the index of the cluster at the head
  of the list, the pair is \<^verbatim>\<open>(best_cluster, best_score)\<close>.\<close>

fun best_match ::
  "arith \<Rightarrow> fuzz \<Rightarrow> IdentifierMatch \<Rightarrow> nat \<Rightarrow> ClusterCandidate list \<Rightarrow> nat option \<times> real
     \<Rightarrow> error + (nat option \<times> real)" where
  "best_match fl fz identifier i [] best = Inr best"
| "best_match fl fz identifier i (cluster # rest) best =
     (case match_identifier fl fz cluster identifier of
        Inl e \<Rightarrow> Inl e
      | Inr score \<Rightarrow>
          best_match fl fz identifier (Suc i) rest
            (if snd best < score then (Some i, score) else best))"

definition merge_into ::
  "linker_state \<Rightarrow> nat \<Rightarrow> IdentifierMatch \<Rightarrow> int \<Rightarrow> real \<Rightarrow> linker_state" where
  "merge_into st c identifier page_index score =
     st\<lparr>clusters := (clusters st)[c := merge_identifier (clusters st ! c) identifier page_index score]\<rparr>"

definition assign_identifier ::
  "arith \<Rightarrow> fuzz \<Rightarrow> Settings \<Rightarrow> linker_state \<Rightarrow> IdentifierMatch \<Rightarrow> int \<Rightarrow> nat option \<Rightarrow> bool
     \<Rightarrow> error + (linker_state \<times> nat \<times> branch)" where
  "assign_identifier fl fz settings st identifier page_index preferred force_attach =
     (case best_match fl fz identifier 0 (clusters st) (None, 0) of
        Inl e \<Rightarrow> Inl e
      | Inr (best_cluster, best_score) \<Rightarrow>
          (let threshold = threshold_for fl settings (im_kind identifier)
           in if best_cluster \<noteq> None \<and> threshold \<le> best_score then
                Inr (merge_into st (the best_cluster) identifier page_index best_score,
                     the best_cluster, Merged)
              else if preferred \<noteq> None \<and> force_attach then
                Inr (merge_into st (the preferred) identifier page_index best_score,
                     the preferred, Attached)
              else if im_kind identifier = ''name'' \<and> best_cluster \<noteq> None
                      \<and> name_match_threshold settings \<le> best_score
                      \<and> linker_strict_mode settings then
                (case best_cluster of
                   Some b \<Rightarrow> Inr (st, b, StrictIgnored)
                 | None \<Rightarrow>
                     (case preferred of
                        Some p \<Rightarrow> Inr (st, p, StrictIgnored)
                      | None \<Rightarrow>
                          (let (st', c) = create_cluster st identifier page_index
                           in Inr (st', c, StrictIgnored))))
              else if best_cluster \<noteq> None \<and> threshold \<le> best_score then
                Inr (merge_into st (the best_cluster) identifier page_index best_score,
                     the best_cluster, MergedLate)
              else (let (st', c) = create_cluster st identifier page_index
                    in Inr (st', c, Created))))"

text \<open>\<^verbatim>\<open>max(xs, key=f)\<close> and \<^verbatim>\<open>min(xs, key=f)\<close> return the first element with the largest
  (smallest) key, and raise \<^verbatim>\<open>ValueError\<close> on an empty list.\<close>

definition max_by_key :: "('a \<Rightarrow> nat) \<Rightarrow> 'a list \<Rightarrow> error + 'a" where
  "max_by_key f xs =
     (case xs of [] \<Rightarrow> Inl ValueError
      | x # rest \<Rightarrow> Inr (fold (\<lambda>y best. if f best < f y then y else best) rest x))"

definition min_by_key :: "('a \<Rightarrow> nat) \<Rightarrow> 'a list \<Rightarrow> error + 'a" where
  "min_by_key f xs =
     (case xs of [] \<Rightarrow> Inl ValueError
      | x # rest \<Rightarrow> Inr (fold (\<lambda>y best. if f y < f best then y else best) rest x))"

text \<open>An anchor is a pair of a position on the page and the index of a cluster.\<close>

definition nearest_anchor :: "nat \<Rightarrow> (nat \<times> nat) list \<Rightarrow> error + nat" where
  "nearest_anchor identifier_index anchor_positions =
     (let preceding = filter (\<lambda>item. fst item \<le> identifier_index) anchor_positions
      in if preceding \<noteq> [] then ebind (max_by_key fst preceding) (\<lambda>nearest. Inr (snd nearest))
         else ebind (min_by_key fst anchor_positions) (\<lambda>following. Inr (snd following)))"

definition anchor_kinds :: "string set" where
  "anchor_kinds = {''mrn''}"

definition supportive_kinds :: "string set" where
  "supportive_kinds = {''name'', ''dob'', ''phone''}"

text \<open>The body of the inner loop of \<^verbatim>\<open>link\<close>, for the identifier at position \<open>idx\<close> of the
  page. The test \<^verbatim>\<open>cluster not in [c for _, c in anchor_positions]\<close> compares clusters by
  their fields, as the equality of a dataclass does.\<close>

definition link_step ::
  "arith \<Rightarrow> fuzz \<Rightarrow> Settings \<Rightarrow> int \<Rightarrow> nat \<times> IdentifierMatch \<Rightarrow> linker_state \<times> (nat \<times> nat) list
     \<Rightarrow> error + (linker_state \<times> (nat \<times> nat) list)" where
  "link_step fl fz settings page_index item state =
     (let idx = fst item; identifier = snd item;
          st = fst state; anchor_positions = snd state
      in ebind (if anchor_positions \<noteq> [] \<and> im_kind identifier \<in> supportive_kinds
                then ebind (nearest_anchor idx anchor_positions) (\<lambda>p. Inr (Some p, True))
                else Inr (None, False))
           (\<lambda>(preferred, force_attach).
              ebind (assign_identifier fl fz settings st identifier page_index preferred force_attach)
                (\<lambda>(st', cluster, taken).
                   Inr (st',
                        if im_kind identifier \<in> anchor_kinds
                          then anchor_positions @ [(idx, cluster)]
                        else if im_kind identifier \<in> supportive_kinds
                          then (if preferred = None
                                   \<and> clusters st' ! cluster
                                       \<notin> set (map (\<lambda>a. clusters st' ! snd a) anchor_positions)
                                then anchor_positions @ [(idx, cluster)]
                                else anchor_positions)
                        else anchor_positions))))"

text \<open>One iteration of the outer loop: \<^verbatim>\<open>anchor_positions\<close> starts empty on every page.\<close>

definition link_page ::
  "arith \<Rightarrow> fuzz \<Rightarrow> Settings \<Rightarrow> PageEntities \<Rightarrow> linker_state \<Rightarrow> error + linker_state" where
  "link_page fl fz settings page st =
     ebind (efold (link_step fl fz settings (pe_page_index page))
              (enumerate 0 (pe_identifiers page)) (st, []))
       (\<lambda>state. Inr (fst state))"

definition to_linked_patient :: "arith \<Rightarrow> ClusterCandidate \<Rightarrow> LinkedPatient" where
  "to_linked_patient fl cluster =
     (let identifiers = sort_key li_kind (map snd (cc_identifiers cluster));
          identifiers_list =
            map (\<lambda>ident. \<lparr>li_kind = li_kind ident, li_value = li_value ident,
                          li_confidence = fl_round3 fl (li_confidence ident),
                          li_sources = li_sources ident\<rparr>) identifiers
      in \<lparr>lp_patient_id = cc_patient_id cluster, lp_identifiers = identifiers_list,
          lp_pages = sort (cc_pages cluster), lp_score = fl_round3 fl (cc_score cluster)\<rparr>)"

text \<open>The loops of \<^verbatim>\<open>link\<close>, started on an empty cluster list with the counter at \<open>n\<close>.\<close>

definition link_clusters ::
  "arith \<Rightarrow> fuzz \<Rightarrow> Settings \<Rightarrow> nat \<Rightarrow> PageEntities list \<Rightarrow> error + linker_state" where
  "link_clusters fl fz settings n pages =
     efold (link_page fl fz settings) pages \<lparr>clusters = [], next_patient = n\<rparr>"

definition link ::
  "arith \<Rightarrow> fuzz \<Rightarrow> Settings \<Rightarrow> nat \<Rightarrow> PageEntities list \<Rightarrow> error + LinkedPatient list" where
  "link fl fz settings n pages =
     ebind (link_clusters fl fz settings n pages)
       (\<lambda>st. Inr (map (to_linked_patient fl) (clusters st)))"

section \<open>Page assigner (\<^verbatim>\<open>page_assigner.py\<close>)\<close>

record AssignmentReason =
  ar_kind :: string
  ar_value :: string
  ar_score :: real

record PageAssignment =
  pa_page_index :: int
  pa_patient_id :: "string option"
  pa_confidence :: real
  pa_reasons :: "AssignmentReason list"
  pa_manual_review :: bool

record DocumentAssignmentSummary =
  assignments :: "PageAssignment list"
  unassigned_pages :: "int list"
  ambiguous_pages :: "int list"

record AssignmentScore =
  as_patient_id :: string
  as_score :: real
  as_reasons :: "AssignmentReason list"

text \<open>\<^verbatim>\<open>sum(weights.values())\<close> adds the values in the order of the dictionary, from 0.\<close>

definition weights :: "arith \<Rightarrow> Settings \<Rightarrow> (string \<times> real) list" where
  "weights fl settings =
     (let ws = [(''mrn'', assign_mrn_weight settings), (''dob'', assign_dob_weight settings),
                (''phone'', assign_phone_weight settings), (''name'', assign_name_weight settings)];
          total = foldl (fl_add fl) 0 (map snd ws)
      in if total = 0 then ws else map (\<lambda>(key, v). (key, fl_div fl v total)) ws)"

definition compare :: "arith \<Rightarrow> fuzz \<Rightarrow> string \<Rightarrow> string \<Rightarrow> string \<Rightarrow> error + real" where
  "compare fl fz kind a b =
     (if kind = ''mrn'' then Inr (score_mrn fl fz a b)
      else if kind = ''dob'' then score_dob a b
      else if kind = ''phone'' then Inr (score_phone fl fz a b)
      else if kind = ''name'' then Inr (score_name fl fz a b)
      else Inr 0)"

text \<open>The inner loop of \<^verbatim>\<open>_score_page\<close> over the patient's identifiers of the same kind;
  the pair is \<^verbatim>\<open>(best, best_value)\<close>.\<close>

fun best_candidate ::
  "arith \<Rightarrow> fuzz \<Rightarrow> IdentifierMatch \<Rightarrow> LinkedIdentifier list \<Rightarrow> real \<times> string option
     \<Rightarrow> error + (real \<times> string option)" where
  "best_candidate fl fz identifier [] best = Inr best"
| "best_candidate fl fz identifier (candidate # rest) best =
     (case compare fl fz (im_kind identifier) (im_value identifier) (li_value candidate) of
        Inl e \<Rightarrow> Inl e
      | Inr current \<Rightarrow>
          best_candidate fl fz identifier rest
            (if fst best < current then (current, Some (li_value candidate)) else best))"

text \<open>The body of the outer loop of \<^verbatim>\<open>_score_page\<close>; the state is \<^verbatim>\<open>(score, reasons)\<close>.
  \<^verbatim>\<open>patient_lookup.get(kind, [])\<close> is the list of the patient's identifiers of that kind,
  in their order.\<close>

definition score_identifier ::
  "arith \<Rightarrow> fuzz \<Rightarrow> Settings \<Rightarrow> LinkedPatient \<Rightarrow> IdentifierMatch \<Rightarrow> real \<times> AssignmentReason list
     \<Rightarrow> error + (real \<times> AssignmentReason list)" where
  "score_identifier fl fz settings patient identifier acc =
     (let matches = filter (\<lambda>li. li_kind li = im_kind identifier) (lp_identifiers patient)
      in ebind (best_candidate fl fz identifier matches (0, None))
           (\<lambda>(best, best_value).
              if 0 < best then
                (let weight = (case map_of (weights fl settings) (im_kind identifier) of
                                 None \<Rightarrow> 0 | Some w \<Rightarrow> w);
                     contribution = fl_mul fl best weight
                 in Inr (fl_add fl (fst acc) contribution,
                         snd acc @
                           [\<lparr>ar_kind = im_kind identifier,
                             ar_value = (case best_value of
                                           None \<Rightarrow> im_value identifier
                                         | Some v \<Rightarrow> if v = [] then im_value identifier else v),
                             ar_score = fl_round3 fl contribution\<rparr>]))
              else Inr acc))"

definition score_page ::
  "arith \<Rightarrow> fuzz \<Rightarrow> Settings \<Rightarrow> PageEntities \<Rightarrow> LinkedPatient \<Rightarrow> error + AssignmentScore" where
  "score_page fl fz settings page patient =
     ebind (efold (score_identifier fl fz settings patient) (pe_identifiers page) (0, []))
       (\<lambda>(score, reasons).
          Inr \<lparr>as_patient_id = lp_patient_id patient, as_score = fl_round3 fl (min score 1),
               as_reasons = reasons\<rparr>)"

text \<open>\<^verbatim>\<open>scores.sort(key=lambda s: s.score, reverse=True)\<close>: descending, and stable.\<close>

definition sort_scores :: "AssignmentScore list \<Rightarrow> AssignmentScore list" where
  "sort_scores scores = sort_key (\<lambda>s. - as_score s) scores"

text \<open>The scores of a page that \<^verbatim>\<open>_assign_single_page\<close> ranks: those above zero, sorted.\<close>

definition ranked_scores ::
  "arith \<Rightarrow> fuzz \<Rightarrow> Settings \<Rightarrow> PageEntities \<Rightarrow> LinkedPatient list \<Rightarrow> error + AssignmentScore list" where
  "ranked_scores fl fz settings page patients =
     ebind (emap (score_page fl fz settings page) patients)
       (\<lambda>scores. Inr (sort_scores (filter (\<lambda>s. 0 < as_score s) scores)))"

definition assign_single_page ::
  "arith \<Rightarrow> fuzz \<Rightarrow> Settings \<Rightarrow> PageEntities \<Rightarrow> LinkedPatient list \<Rightarrow> error + PageAssignment" where
  "assign_single_page fl fz settings page patients =
     ebind (ranked_scores fl fz settings page patients)
       (\<lambda>scores.
          if scores = [] then
            Inr \<lparr>pa_page_index = pe_page_index page, pa_patient_id = None, pa_confidence = 0,
                 pa_reasons = [], pa_manual_review = True\<rparr>
          else
            (let top = scores ! 0;
                 confidence = as_score top;
                 manual_review =
                   (1 < length scores
                      \<and> fl_sub fl (as_score top) (as_score (scores ! 1))
                          \<le> assign_ambiguity_margin settings)
             in if confidence < assign_min_confidence settings then
                  Inr \<lparr>pa_page_index = pe_page_index page,
                       pa_patient_id = (if assign_allow_unassigned settings then None
                                        else Some (as_patient_id top)),
                       pa_confidence = confidence,
                       pa_reasons = (if \<not> assign_allow_unassigned settings then as_reasons top
                                     else []),
                       pa_manual_review = True\<rparr>
                else
                  Inr \<lparr>pa_page_index = pe_page_index page,
                       pa_patient_id = Some (as_patient_id top),
                       pa_confidence = confidence, pa_reasons = as_reasons top,
                       pa_manual_review = manual_review\<rparr>))"

text \<open>The body of the loop of \<^verbatim>\<open>assign_pages\<close>; the state is the summary under
  construction.\<close>

definition assign_page_step ::
  "arith \<Rightarrow> fuzz \<Rightarrow> Settings \<Rightarrow> LinkedPatient list \<Rightarrow> PageEntities \<Rightarrow> DocumentAssignmentSummary
     \<Rightarrow> error + DocumentAssignmentSummary" where
  "assign_page_step fl fz settings patients page summary =
     ebind (assign_single_page fl fz settings page patients)
       (\<lambda>result.
          Inr \<lparr>assignments = assignments summary @ [result],
               unassigned_pages =
                 (if pa_patient_id result = None
                  then unassigned_pages summary @ [pe_page_index page]
                  else unassigned_pages summary),
               ambiguous_pages =
                 (if pa_patient_id result = None then ambiguous_pages summary
                  else if pa_manual_review result
                  then ambiguous_pages summary @ [pe_page_index page]
                  else ambiguous_pages summary)\<rparr>)"

definition assign_pages ::
  "arith \<Rightarrow> fuzz \<Rightarrow> Settings \<Rightarrow> PageEntities list \<Rightarrow> LinkedPatient list
     \<Rightarrow> error + DocumentAssignmentSummary" where
  "assign_pages fl fz settings pages patients =
     efold (assign_page_step fl fz settings patients) pages
       \<lparr>assignments = [], unassigned_pages = [], ambiguous_pages = []\<rparr>"

section \<open>Instances used to run the model\<close>

text \<open>Arithmetic on exact decimals: literals denote themselves, the operators are those
  of the reals, and \<^verbatim>\<open>round(x, 3)\<close> goes to the nearest multiple of one thousandth, a tie
  to the even one. The concrete runs below use it on inputs where the doubles take the
  same decisions and return the doubles nearest to the decimals shown (the default
  weights add up to 1.0, \<^verbatim>\<open>0.2 / 1.0\<close> and \<^verbatim>\<open>round(0.2, 3)\<close> are 0.2).\<close>

definition round_half_even :: "real \<Rightarrow> int" where
  "round_half_even x =
     (let f = \<lfloor>x\<rfloor>; d = x - of_int f
      in if d < 1 / 2 then f else if 1 / 2 < d then f + 1 else if even f then f else f + 1)"

definition decimal_round3 :: "real \<Rightarrow> real" where
  "decimal_round3 x = of_int (round_half_even (x * 1000)) / 1000"

definition decimal_arith :: arith where
  "decimal_arith =
     \<lparr>fl_lit = (\<lambda>x. x), fl_add = (\<lambda>x y. x + y), fl_sub = (\<lambda>x y. x - y),
      fl_mul = (\<lambda>x y. x * y), fl_div = (\<lambda>x y. x / y), fl_round3 = decimal_round3\<rparr>"

definition decimal_settings :: Settings where
  "decimal_settings = default_settings decimal_arith"

text \<open>A stand-in for the library: every comparison returns the raw score \<open>r\<close>.\<close>

definition constant_fuzz :: "real \<Rightarrow> fuzz" where
  "constant_fuzz r =
     \<lparr>ratio = (\<lambda>a b. r), token_sort_ratio = (\<lambda>a b. r), partial_ratio = (\<lambda>a b. r)\<rparr>"

text \<open>An identifier as the extractor emits it, and a page of such identifiers.\<close>

definition mk_identifier :: "string \<Rightarrow> string \<Rightarrow> real \<Rightarrow> IdentifierMatch" where
  "mk_identifier kind v conf =
     \<lparr>im_kind = kind, im_value = v, im_confidence = conf, im_bbox = (0, 0, 1, 1),
      im_word_indices = []\<rparr>"

definition mk_page :: "int \<Rightarrow> IdentifierMatch list \<Rightarrow> PageEntities" where
  "mk_page i ids = \<lparr>pe_page_index = i, pe_identifiers = ids\<rparr>"

text \<open>A linked patient that holds one date of birth.\<close>

definition dob_patient :: "string \<Rightarrow> string \<Rightarrow> LinkedPatient" where
  "dob_patient pid v =
     \<lparr>lp_patient_id = pid,
      lp_identifiers = [\<lparr>li_kind = ''dob'', li_value = v, li_confidence = 9 / 10,
                         li_sources = [(0, [])]\<rparr>],
      lp_pages = [0], lp_score = 9 / 10\<rparr>"

text \<open>A page with two record numbers.\<close>

definition two_mrn_page :: PageEntities where
  "two_mrn_page =
     mk_page 0 [mk_identifier ''mrn'' ''12345'' (9 / 10), mk_identifier ''mrn'' ''67890'' (9 / 10)]"

text \<open>A cluster that holds one record number, a cluster that holds one date of birth, and
  the default settings with the date threshold set to zero.\<close>

definition mrn_cluster :: ClusterCandidate where
  "mrn_cluster =
     \<lparr>cc_patient_id = ''patient_001'',
      cc_identifiers = [(''mrn'', \<lparr>li_kind = ''mrn'', li_value = ''12345'',
                                  li_confidence = 9 / 10, li_sources = [(0, [])]\<rparr>)],
      cc_pages = [0], cc_score = 9 / 10\<rparr>"

definition dob_cluster :: ClusterCandidate where
  "dob_cluster =
     \<lparr>cc_patient_id = ''patient_001'',
      cc_identifiers = [(''dob'', \<lparr>li_kind = ''dob'', li_value = ''01/02/1990'',
                                  li_confidence = 9 / 10, li_sources = [(0, [])]\<rparr>)],
      cc_pages = [0], cc_score = 9 / 10\<rparr>"

definition zero_dob_settings :: Settings where
  "zero_dob_settings = decimal_settings\<lparr>dob_match_threshold := 0\<rparr>"

text \<open>A page with one date of birth, two patients with that date written in two ways,
  settings that never leave a page unassigned, and settings with a low minimum
  confidence.\<close>

definition dob_page :: PageEntities where
  "dob_page = mk_page 0 [mk_identifier ''dob'' ''01/02/1990'' (9 / 10)]"

definition keep_id_settings :: Settings where
  "keep_id_settings = decimal_settings\<lparr>assign_allow_unassigned := False\<rparr>"

definition low_bar_settings :: Settings where
  "low_bar_settings = decimal_settings\<lparr>assign_min_confidence := 1 / 10\<rparr>"

definition two_dob_patients :: "LinkedPatient list" where
  "two_dob_patients =
     [dob_patient ''patient_001'' ''01/02/1990'', dob_patient ''patient_002'' ''1/2/90'']"

text \<open>\<^verbatim>\<open>str.isalnum\<close> on one code point below 256: besides \<^verbatim>\<open>[A-Za-z0-9]\<close>, the letters,
  superscript digits and fractions of the upper half.\<close>

definition py_isalnum :: "char \<Rightarrow> bool" where
  "py_isalnum c =
     (is_alnum c \<or> c \<in> set latin1_upper \<or> c \<in> set latin1_lower
      \<or> c \<in> set [CHR 0xAA, CHR 0xB2, CHR 0xB3, CHR 0xB5, CHR 0xB9, CHR 0xBA, CHR 0xBC,
                    CHR 0xBD, CHR 0xBE, CHR 0xDF, CHR 0xFF])"

text \<open>A state whose only cluster holds the name \<^verbatim>\<open>Jon Doe\<close> with confidence 0.8, and two
  further readings of the name.\<close>

definition jon_state :: linker_state where
  "jon_state =
     \<lparr>clusters =
        [\<lparr>cc_patient_id = ''patient_001'',
          cc_identifiers = [(''name'', \<lparr>li_kind = ''name'', li_value = ''Jon Doe'',
                                       li_confidence = 8 / 10, li_sources = [(0, [])]\<rparr>)],
          cc_pages = [0], cc_score = 8 / 10\<rparr>],
      next_patient = 2\<rparr>"

definition john_doe :: IdentifierMatch where
  "john_doe = mk_identifier ''name'' ''John Doe'' (99 / 100)"

definition john_do :: IdentifierMatch where
  "john_do = mk_identifier ''name'' ''John Do'' (7 / 10)"

section \<open>Notions used in the proofs\<close>

text \<open>The number that a string of decimal digits denotes.\<close>

definition nat_of_digits :: "string \<Rightarrow> nat" where
  "nat_of_digits s = foldl (\<lambda>acc c. 10 * acc + digit_val c) 0 s"

text \<open>The invariant of the linker started with its counter at \<open>n\<close>: the clusters carry the
  ids of \<open>n\<close>, \<open>n + 1\<close>, ... in list order, and the counter is one past the last of them.\<close>

definition ids_from :: "nat \<Rightarrow> linker_state \<Rightarrow> bool" where
  "ids_from n st =
     (map cc_patient_id (clusters st) = map format_patient_id [n..<n + length (clusters st)]
      \<and> next_patient st = n + length (clusters st))"

section \<open>Similarity scorer: properties\<close>

lemma decimal_arith_ops:
  "fl_lit decimal_arith x = x"
  "fl_add decimal_arith x y = x + y"
  "fl_sub decimal_arith x y = x - y"
  "fl_mul decimal_arith x y = x * y"
  "fl_div decimal_arith x y = x / y"
  "fl_round3 decimal_arith x = decimal_round3 x"
  by (simp_all add: decimal_arith_def)

lemma score_mrn_other: "score_mrn decimal_arith (constant_fuzz 0) ''12345'' ''67890'' = 0"
  by (simp add: score_mrn_def normalize_mrn_def lower_def lower_char_def latin1_upper_def
        latin1_lower_def is_lower_def is_digit_def constant_fuzz_def scale_score_def
        decimal_arith_ops)

lemma lower_char_alnum: "(is_lower (lower_char c) \<or> is_digit (lower_char c)) = is_alnum c"
  unfolding is_alnum_def is_lower_def is_upper_def is_digit_def lower_char_def
    latin1_upper_def latin1_lower_def
  by (simp split: option.splits)

lemma normalize_mrn_empty: "(normalize_mrn a = []) = (\<forall>c\<in>set a. \<not> is_alnum c)"
  by (simp add: normalize_mrn_def lower_def filter_empty_conv lower_char_alnum [symmetric])

text \<open>
  Claim C10, as the code has it on strings of code points below 256. Comparing a medical
  record number with itself gives 0 when the string has no character of \<^verbatim>\<open>[A-Za-z0-9]\<close>
  (its normal form is empty), and 1 as soon as it has one, whatever the library functions
  return. Letters and digits outside \<^verbatim>\<open>[A-Za-z0-9]\<close> do not count.
\<close>

theorem score_mrn_self:
  "((\<forall>c\<in>set a. \<not> is_alnum c) \<longrightarrow> score_mrn fl fz a a = 0)
   \<and> ((\<exists>c\<in>set a. is_alnum c) \<longrightarrow> score_mrn fl fz a a = 1)"
  using normalize_mrn_empty [of a] by (auto simp: score_mrn_def Let_def)

theorem score_mrn_self_witness:
  "score_mrn decimal_arith (constant_fuzz 50) ''--/ --'' ''--/ --'' = 0
   \<and> score_mrn decimal_arith (constant_fuzz 50) ''AB-123'' ''AB-123'' = 1"
  using score_mrn_self [where a = "''--/ --''" and fl = decimal_arith and fz = "constant_fuzz 50"]
        score_mrn_self [where a = "''AB-123''" and fl = decimal_arith and fz = "constant_fuzz 50"]
  by (simp add: is_alnum_def is_upper_def is_lower_def is_digit_def)

text \<open>
  The letter \<^verbatim>\<open>\xe9\<close> (e with acute accent) is alphanumeric for \<^verbatim>\<open>str.isalnum\<close>, yet it is
  not in \<^verbatim>\<open>[a-z0-9]\<close> after \<^verbatim>\<open>str.lower\<close>: the record number made of this one letter has
  an empty normal form and scores 0 against itself.
\<close>

theorem accented_letter_counterexample:
  "py_isalnum (CHR 0xE9)
   \<and> normalize_mrn [CHR 0xE9] = []
   \<and> score_mrn decimal_arith (constant_fuzz 50) [CHR 0xE9] [CHR 0xE9] = 0"
  by (simp add: py_isalnum_def latin1_lower_def score_mrn_def normalize_mrn_def lower_def
        lower_char_def latin1_upper_def is_lower_def is_digit_def)

lemma normalize_dob_bad_year: "normalize_dob ''01/02/ab'' = Inl ValueError"
  by (simp add: normalize_dob_def replace_char_def py_int_def strip_chars_def
        is_int_space_def is_digit_def ebind_def)

lemma normalize_dob_good: "normalize_dob ''01/02/1990'' = Inr ''01/02/1990''"
  by (simp add: normalize_dob_def replace_char_def ebind_def zfill_def)

text \<open>Wherever both normal forms exist the date score is categorical: 1 when they are equal
  and 0 otherwise, and no other value is ever returned.\<close>

lemma score_dob_categorical:
  "normalize_dob a = Inr x \<Longrightarrow> normalize_dob b = Inr y
     \<Longrightarrow> score_dob a b = Inr (if x = y then 1 else 0)"
  by (simp add: score_dob_def ebind_def)

lemma score_dob_values: "score_dob a b = Inr s \<Longrightarrow> s = 0 \<or> s = 1"
  by (auto simp: score_dob_def ebind_def split: sum.splits if_splits)

text \<open>
  Claim C5. The date score should be 1 for two strings with the same normal form. For a
  string whose year field has two characters that are not a number, \<^verbatim>\<open>int(year)\<close> raises
  \<^verbatim>\<open>ValueError\<close> inside \<^verbatim>\<open>_normalize_dob\<close>: comparing such a string with itself returns
  neither 1 nor 0.
\<close>

theorem score_dob_same_string_raises:
  "score_dob ''01/02/ab'' ''01/02/ab'' = Inl ValueError"
  by (simp add: score_dob_def normalize_dob_bad_year ebind_def)

section \<open>Extractor: properties\<close>

text \<open>
  Claim C8. At the extraction stage a date keeps its hyphens: \<^verbatim>\<open>_normalize_value\<close> replaces
  the dot only, so \<^verbatim>\<open>01-02-1990\<close> and \<^verbatim>\<open>01/02/1990\<close> stay two different values.
\<close>

theorem extractor_dob_keeps_hyphen:
  "normalize_value cap ''dob'' (truncate_value ''01-02-1990'') = ''01-02-1990''
   \<and> normalize_value cap ''dob'' (truncate_value ''01/02/1990'') = ''01/02/1990''
   \<and> normalize_value cap ''dob'' (truncate_value ''01-02-1990'')
       \<noteq> normalize_value cap ''dob'' (truncate_value ''01/02/1990'')"
  by (simp add: normalize_value_def truncate_value_def strip_def strip_chars_def is_space_def
        replace_char_def)

section \<open>Entity linker: properties\<close>

subsection \<open>Exceptions\<close>

text \<open>
  Claim C6. Similarity scoring should never raise. A date whose year field is two
  characters that are not a number makes \<^verbatim>\<open>int(year)\<close> raise \<^verbatim>\<open>ValueError\<close>; nothing
  catches it, so the exception leaves \<^verbatim>\<open>score_dob\<close>, and through \<^verbatim>\<open>_match_identifier\<close>
  and \<^verbatim>\<open>_compare\<close> it leaves \<^verbatim>\<open>link\<close> and \<^verbatim>\<open>assign_pages\<close> as well.
\<close>

theorem malformed_dob_raises:
  "score_dob ''01/02/1990'' ''01/02/ab'' = Inl ValueError
   \<and> link fl fz settings n
        [mk_page 0 [mk_identifier ''dob'' ''01/02/1990'' c1],
         mk_page 1 [mk_identifier ''dob'' ''01/02/ab'' c2]] = Inl ValueError
   \<and> assign_pages fl fz settings [mk_page 0 [mk_identifier ''dob'' ''01/02/ab'' c1]]
        [dob_patient ''patient_001'' ''01/02/1990''] = Inl ValueError"
proof -
  have s: "score_dob ''01/02/1990'' ''01/02/ab'' = Inl ValueError"
    by (simp add: score_dob_def normalize_dob_bad_year normalize_dob_good ebind_def)
  have s': "score_dob ''01/02/ab'' ''01/02/1990'' = Inl ValueError"
    by (simp add: score_dob_def normalize_dob_bad_year normalize_dob_good ebind_def)
  have l: "link fl fz settings n
        [mk_page 0 [mk_identifier ''dob'' ''01/02/1990'' c1],
         mk_page 1 [mk_identifier ''dob'' ''01/02/ab'' c2]] = Inl ValueError"
    by (simp add: link_def link_clusters_def link_page_def link_step_def assign_identifier_def
          create_cluster_def match_identifier_def mk_page_def mk_identifier_def ebind_def
          enumerate_eq_zip Let_def s)
  have a: "assign_pages fl fz settings [mk_page 0 [mk_identifier ''dob'' ''01/02/ab'' c1]]
        [dob_patient ''patient_001'' ''01/02/1990''] = Inl ValueError"
    by (simp add: assign_pages_def assign_page_step_def assign_single_page_def
          ranked_scores_def score_page_def score_identifier_def compare_def dob_patient_def
          mk_page_def mk_identifier_def ebind_def Let_def s')
  from s l a show ?thesis by simp
qed

subsection \<open>The strict-mode branch\<close>

text \<open>
  Claim C7. Whatever the clusters, the identifier, the settings and the preferred
  cluster, \<^verbatim>\<open>_assign_identifier\<close> never returns through its strict-mode branch: for a name
  the merge threshold is the name threshold, so the first test has already returned.
\<close>

theorem strict_branch_unreachable:
  "assign_identifier fl fz settings st ident page_index preferred force_attach
     \<noteq> Inr (st', c, StrictIgnored)"
  by (auto simp: assign_identifier_def Let_def threshold_for_def
           split: sum.splits prod.splits option.splits if_splits)

subsection \<open>The merge rule\<close>

lemma map_fst_update:
  "map fst (AList.update k v al) = (if k \<in> fst ` set al then map fst al else map fst al @ [k])"
  by (induction al) auto

text \<open>The merge rule on one cluster that already holds a linked identifier of the kind.\<close>

lemma merge_identifier_rule:
  assumes "map_of (cc_identifiers cluster) (im_kind ident) = Some existing"
  shows "map_of (cc_identifiers (merge_identifier cluster ident page_index score))
           (im_kind ident)
         = Some (existing
                  \<lparr>li_value := (if li_confidence existing < score then im_value ident
                                else li_value existing),
                   li_confidence := max (li_confidence existing) (im_confidence ident),
                   li_sources := li_sources existing @ [(page_index, im_word_indices ident)]\<rparr>)
       \<and> (\<forall>k. k \<noteq> im_kind ident \<longrightarrow>
             map_of (cc_identifiers (merge_identifier cluster ident page_index score)) k
             = map_of (cc_identifiers cluster) k)
       \<and> map fst (cc_identifiers (merge_identifier cluster ident page_index score))
           = map fst (cc_identifiers cluster)
       \<and> set (cc_pages (merge_identifier cluster ident page_index score))
           = insert page_index (set (cc_pages cluster))
       \<and> cc_score (merge_identifier cluster ident page_index score)
           = max (cc_score cluster) (im_confidence ident)
       \<and> cc_patient_id (merge_identifier cluster ident page_index score)
           = cc_patient_id cluster"
proof -
  from assms have "im_kind ident \<in> fst ` set (cc_identifiers cluster)"
    by (metis map_of_eq_None_iff option.distinct(1))
  with assms show ?thesis
    by (auto simp: merge_identifier_def Let_def update_conv' map_fst_update)
qed

text \<open>
  Claim C1, as the code has it. Merging an identifier into cluster \<open>c\<close> of the linker
  state, when that cluster already holds a linked identifier of the kind, changes that
  cluster only. The stored value becomes the new value exactly when the score passed to the
  merge is strictly above the stored confidence (on a tie the stored value stays); that
  score is the best similarity the scoring loop found, and the stored confidence is the
  largest extraction confidence merged so far. The stored confidence becomes the larger of
  the two confidences; the source \<open>(page_index, word_indices)\<close> is appended; the page
  joins the pages of the cluster; the score of the cluster becomes the larger of its score
  and the new confidence. The other kinds, the set of kinds and the patient id are
  untouched.
\<close>

theorem merge_into_rule:
  assumes "c < length (clusters st)"
    and "map_of (cc_identifiers (clusters st ! c)) (im_kind ident) = Some existing"
  shows "length (clusters (merge_into st c ident page_index score)) = length (clusters st)
       \<and> next_patient (merge_into st c ident page_index score) = next_patient st
       \<and> (\<forall>j<length (clusters st). j \<noteq> c \<longrightarrow>
             clusters (merge_into st c ident page_index score) ! j = clusters st ! j)
       \<and> map_of (cc_identifiers (clusters (merge_into st c ident page_index score) ! c))
           (im_kind ident)
         = Some (existing
                  \<lparr>li_value := (if li_confidence existing < score then im_value ident
                                else li_value existing),
                   li_confidence := max (li_confidence existing) (im_confidence ident),
                   li_sources := li_sources existing @ [(page_index, im_word_indices ident)]\<rparr>)
       \<and> (\<forall>k. k \<noteq> im_kind ident \<longrightarrow>
             map_of (cc_identifiers (clusters (merge_into st c ident page_index score) ! c)) k
             = map_of (cc_identifiers (clusters st ! c)) k)
       \<and> map fst (cc_identifiers (clusters (merge_into st c ident page_index score) ! c))
           = map fst (cc_identifiers (clusters st ! c))
       \<and> set (cc_pages (clusters (merge_into st c ident page_index score) ! c))
           = insert page_index (set (cc_pages (clusters st ! c)))
       \<and> cc_score (clusters (merge_into st c ident page_index score) ! c)
           = max (cc_score (clusters st ! c)) (im_confidence ident)
       \<and> cc_patient_id (clusters (merge_into st c ident page_index score) ! c)
           = cc_patient_id (clusters st ! c)"
proof -
  have at: "clusters (merge_into st c ident page_index score) ! c
      = merge_identifier (clusters st ! c) ident page_index score"
    using assms(1) by (simp add: merge_into_def)
  have others: "\<forall>j<length (clusters st). j \<noteq> c \<longrightarrow>
      clusters (merge_into st c ident page_index score) ! j = clusters st ! j"
    by (simp add: merge_into_def)
  have shape: "length (clusters (merge_into st c ident page_index score)) = length (clusters st)"
    "next_patient (merge_into st c ident page_index score) = next_patient st"
    by (simp_all add: merge_into_def)
  from merge_identifier_rule [OF assms(2), of page_index score] others shape
  show ?thesis unfolding at by blast
qed

theorem merge_into_rule_witness:
  "map_of (cc_identifiers (clusters (merge_into jon_state 0 john_doe 1 (86 / 100)) ! 0)) ''name''
     = Some \<lparr>li_kind = ''name'', li_value = ''John Doe'', li_confidence = 99 / 100,
             li_sources = [(0, []), (1, [])]\<rparr>
   \<and> map_of (cc_identifiers (clusters (merge_into jon_state 0 john_do 1 (8 / 10)) ! 0)) ''name''
     = Some \<lparr>li_kind = ''name'', li_value = ''Jon Doe'', li_confidence = 8 / 10,
             li_sources = [(0, []), (1, [])]\<rparr>
   \<and> set (cc_pages (clusters (merge_into jon_state 0 john_doe 1 (86 / 100)) ! 0)) = {0, 1}
   \<and> cc_score (clusters (merge_into jon_state 0 john_doe 1 (86 / 100)) ! 0) = 99 / 100"
proof -
  have c: "0 < length (clusters jon_state)"
    by (simp add: jon_state_def)
  have held: "map_of (cc_identifiers (clusters jon_state ! 0)) (im_kind john_doe)
      = Some \<lparr>li_kind = ''name'', li_value = ''Jon Doe'', li_confidence = 8 / 10,
              li_sources = [(0, [])]\<rparr>"
    by (simp add: jon_state_def john_doe_def mk_identifier_def)
  have held': "map_of (cc_identifiers (clusters jon_state ! 0)) (im_kind john_do)
      = Some \<lparr>li_kind = ''name'', li_value = ''Jon Doe'', li_confidence = 8 / 10,
              li_sources = [(0, [])]\<rparr>"
    by (simp add: jon_state_def john_do_def mk_identifier_def)
  show ?thesis
    using merge_into_rule [OF c held, of 1 "86 / 100"]
          merge_into_rule [OF c held', of 1 "8 / 10"]
    by (simp add: john_doe_def john_do_def mk_identifier_def jon_state_def insert_commute)
qed

text \<open>
  The value with the higher match score is not always the one kept. The cluster holds
  \<^verbatim>\<open>Jon Doe\<close> with confidence 0.8; \<^verbatim>\<open>John Doe\<close> (confidence 0.99) merges with score 0.86 and
  takes its place, raising the stored confidence to 0.99; \<^verbatim>\<open>John Do\<close> (confidence 0.7)
  then merges with the higher score 0.95, which is below 0.99, and \<^verbatim>\<open>John Doe\<close> stays.
\<close>

theorem higher_score_not_kept_counterexample:
  "(86 / 100 :: real) < 95 / 100
   \<and> map_of (cc_identifiers
               (clusters (merge_into (merge_into jon_state 0 john_doe 1 (86 / 100))
                            0 john_do 2 (95 / 100)) ! 0)) ''name''
     = Some \<lparr>li_kind = ''name'', li_value = ''John Doe'', li_confidence = 99 / 100,
             li_sources = [(0, []), (1, []), (2, [])]\<rparr>"
  by (simp add: merge_into_def merge_identifier_def jon_state_def john_doe_def john_do_def
        mk_identifier_def Let_def)

subsection \<open>Patient ids\<close>

lemma digit_cases: "d < 10 \<Longrightarrow> d \<in> {0, 1, 2, 3, 4, 5, 6, 7, 8, 9 :: nat}"
  by auto

lemma digit_val_digit_char: "d < 10 \<Longrightarrow> digit_val (digit_char d) = d"
  by (drule digit_cases) (auto simp: digit_val_def digit_char_def)

lemma is_digit_digit_char: "d < 10 \<Longrightarrow> is_digit (digit_char d)"
  by (drule digit_cases) (auto simp: is_digit_def digit_char_def)

lemma nat_of_digits_snoc: "nat_of_digits (s @ [c]) = 10 * nat_of_digits s + digit_val c"
  by (simp add: nat_of_digits_def)

lemma nat_of_digits_str_nat: "nat_of_digits (str_nat n) = n"
proof (induction n rule: str_nat.induct)
  case (1 n)
  show ?case
  proof (cases "n < 10")
    case True
    then show ?thesis
      by (simp add: str_nat.simps [of n] nat_of_digits_def digit_val_digit_char)
  next
    case False
    with 1 show ?thesis
      by (simp add: str_nat.simps [of n] nat_of_digits_snoc digit_val_digit_char)
  qed
qed

lemma str_nat_digits: "c \<in> set (str_nat n) \<Longrightarrow> is_digit c"
proof (induction n rule: str_nat.induct)
  case (1 n)
  then show ?case
    by (cases "n < 10") (auto simp: str_nat.simps [of n] is_digit_digit_char)
qed

lemma str_nat_nonempty: "str_nat n \<noteq> []"
  by (cases "n < 10") (simp_all add: str_nat.simps [of n])

lemma zfill_str_nat:
  "zfill w (str_nat n) = replicate (w - length (str_nat n)) CHR ''0'' @ str_nat n"
proof (cases "str_nat n")
  case Nil
  then show ?thesis by (simp add: str_nat_nonempty)
next
  case (Cons c cs)
  then have "is_digit c" using str_nat_digits [of c n] by simp
  then have "c \<noteq> CHR ''+'' \<and> c \<noteq> CHR ''-''" by (auto simp: is_digit_def)
  with Cons show ?thesis by (simp add: zfill_def)
qed

lemma nat_of_digits_zeros: "nat_of_digits (replicate k CHR ''0'' @ s) = nat_of_digits s"
proof -
  have z: "digit_val CHR ''0'' = 0"
    by (simp add: digit_val_def)
  have "foldl (\<lambda>acc c. 10 * acc + digit_val c) 0 (replicate k CHR ''0'') = 0"
    by (induction k) (simp_all add: z)
  then show ?thesis by (simp add: nat_of_digits_def)
qed

text \<open>Two counter values never format to the same id.\<close>

lemma format_patient_id_inj: "format_patient_id m = format_patient_id n \<Longrightarrow> m = n"
proof -
  assume "format_patient_id m = format_patient_id n"
  then have "zfill 3 (str_nat m) = zfill 3 (str_nat n)"
    by (simp add: format_patient_id_def)
  then have "nat_of_digits (zfill 3 (str_nat m)) = nat_of_digits (zfill 3 (str_nat n))"
    by simp
  then show "m = n"
    by (simp add: zfill_str_nat nat_of_digits_zeros nat_of_digits_str_nat)
qed

lemma efold_invariant:
  assumes "efold f xs s = Inr s'" and "P s"
    and "\<And>x t t'. P t \<Longrightarrow> f x t = Inr t' \<Longrightarrow> P t'"
  shows "P s'"
  using assms(1,2)
proof (induction xs arbitrary: s)
  case Nil
  then show ?case by simp
next
  case (Cons x xs)
  then show ?case by (auto split: sum.splits intro: assms(3))
qed

lemma map_update_same:
  "(\<And>x. f (g x) = f x) \<Longrightarrow> map f (xs[i := g (xs ! i)]) = map f xs"
  by (induction xs arbitrary: i) (auto split: nat.splits)

lemma merge_identifier_patient_id:
  "cc_patient_id (merge_identifier cluster ident pg sc) = cc_patient_id cluster"
  by (simp add: merge_identifier_def Let_def)

lemma merge_into_ids: "ids_from n st \<Longrightarrow> ids_from n (merge_into st c ident pg sc)"
  by (simp add: ids_from_def merge_into_def merge_identifier_patient_id
        map_update_same [where g = "\<lambda>x. merge_identifier x ident pg sc"])

lemma create_cluster_ids:
  "ids_from n st \<Longrightarrow> create_cluster st ident pg = (st', c) \<Longrightarrow> ids_from n st'"
  by (auto simp: ids_from_def create_cluster_def Let_def)

lemma assign_identifier_ids:
  "ids_from n st \<Longrightarrow> assign_identifier fl fz settings st ident pg preferred force = Inr (st', c, b)
     \<Longrightarrow> ids_from n st'"
  by (auto simp: assign_identifier_def Let_def merge_into_ids
           split: sum.splits prod.splits option.splits if_splits
           dest: create_cluster_ids)

lemma link_step_ids:
  "ids_from n (fst state) \<Longrightarrow> link_step fl fz settings pg item state = Inr state'
     \<Longrightarrow> ids_from n (fst state')"
  by (auto simp: link_step_def Let_def ebind_def
           split: sum.splits prod.splits if_splits dest: assign_identifier_ids)

lemma link_page_ids:
  "ids_from n st \<Longrightarrow> link_page fl fz settings p st = Inr st' \<Longrightarrow> ids_from n st'"
  unfolding link_page_def ebind_def
  by (auto split: sum.splits
           elim: efold_invariant [where P = "\<lambda>s. ids_from n (fst s)"] link_step_ids)

lemma link_clusters_ids:
  "link_clusters fl fz settings n pages = Inr st \<Longrightarrow> ids_from n st"
proof -
  assume run: "link_clusters fl fz settings n pages = Inr st"
  have start: "ids_from n \<lparr>clusters = [], next_patient = n\<rparr>"
    by (simp add: ids_from_def)
  show "ids_from n st"
    by (rule efold_invariant [where P = "ids_from n", OF run [unfolded link_clusters_def] start])
       (rule link_page_ids)
qed

text \<open>
  Claim C9. When \<^verbatim>\<open>link\<close> returns on a fresh linker, the patient at position \<open>i\<close> of the
  result (counted from 1) carries the id formatted from the counter value \<open>i\<close>: the ids are
  \<^verbatim>\<open>patient_001\<close>, \<^verbatim>\<open>patient_002\<close>, ... in creation order, which is the order of the
  result, and they are pairwise distinct.
\<close>

theorem link_patient_ids:
  assumes "link fl fz settings new_linker pages = Inr patients"
  shows "map lp_patient_id patients = map format_patient_id [1..<Suc (length patients)]
         \<and> distinct (map lp_patient_id patients)"
proof -
  from assms obtain st where st: "link_clusters fl fz settings 1 pages = Inr st"
    and p: "patients = map (to_linked_patient fl) (clusters st)"
    by (auto simp: link_def new_linker_def ebind_def split: sum.splits)
  have ids: "map cc_patient_id (clusters st) = map format_patient_id [1..<1 + length (clusters st)]"
    using link_clusters_ids [OF st] by (simp add: ids_from_def)
  have "map lp_patient_id patients = map cc_patient_id (clusters st)"
    by (simp add: p to_linked_patient_def Let_def comp_def)
  with ids have m: "map lp_patient_id patients = map format_patient_id [1..<Suc (length patients)]"
    by (simp add: p)
  have "distinct (map format_patient_id [1..<Suc (length patients)])"
    by (simp add: distinct_map inj_on_def format_patient_id_inj)
  with m show ?thesis by simp
qed

theorem link_patient_ids_witness:
  "\<exists>patients. link decimal_arith (constant_fuzz 0) decimal_settings new_linker [two_mrn_page] = Inr patients
     \<and> map lp_patient_id patients = [''patient_001'', ''patient_002'']
     \<and> distinct (map lp_patient_id patients)"
proof -
  have "\<exists>st. link_clusters decimal_arith (constant_fuzz 0) decimal_settings 1 [two_mrn_page] = Inr st
           \<and> length (clusters st) = 2"
    by (simp add: link_clusters_def link_page_def link_step_def assign_identifier_def
          create_cluster_def match_identifier_def two_mrn_page_def mk_page_def mk_identifier_def
          ebind_def enumerate_eq_zip Let_def score_mrn_other
          threshold_for_def decimal_settings_def default_settings_def decimal_arith_ops
          anchor_kinds_def supportive_kinds_def)
  then obtain st
    where st: "link_clusters decimal_arith (constant_fuzz 0) decimal_settings 1 [two_mrn_page] = Inr st"
      and len: "length (clusters st) = 2"
    by blast
  have run: "link decimal_arith (constant_fuzz 0) decimal_settings new_linker [two_mrn_page]
      = Inr (map (to_linked_patient decimal_arith) (clusters st))"
    using st by (simp add: link_def new_linker_def ebind_def)
  have ids: "map format_patient_id [1..<Suc 2] = [''patient_001'', ''patient_002'']"
    by (simp add: upt_rec format_patient_id_def str_nat.simps digit_char_def zfill_def
          eval_nat_numeral)
  show ?thesis
    using link_patient_ids [OF run] ids by (simp add: run len)
qed

subsection \<open>Resolution of one identifier\<close>

text \<open>The scoring loop leaves the largest score in \<^verbatim>\<open>best_score\<close> (never less than the
  initial 0) and in \<^verbatim>\<open>best_cluster\<close> the first cluster that reaches it, if any score is
  above the initial one.\<close>

lemma fold_max_ge_init: "(bs :: real) \<le> fold max ss bs"
  by (induction ss arbitrary: bs) (auto intro: order_trans [OF max.cobounded2])

lemma fold_max_ge_elem: "(s :: real) \<in> set ss \<Longrightarrow> s \<le> fold max ss bs"
proof (induction ss arbitrary: bs)
  case Nil
  then show ?case by simp
next
  case (Cons t ss)
  then show ?case
    using fold_max_ge_init [of "max t bs" ss] by auto
qed

lemma fold_max_init: "\<forall>s\<in>set ss. s \<le> (bs :: real) \<Longrightarrow> fold max ss bs = bs"
  by (induction ss arbitrary: bs) (auto simp: max_def)

lemma fold_max_above: "\<not> (\<forall>s\<in>set ss. s \<le> (bs :: real)) \<Longrightarrow> bs < fold max ss bs"
proof -
  assume "\<not> (\<forall>s\<in>set ss. s \<le> bs)"
  then obtain s where "s \<in> set ss" "bs < s" by auto
  then show ?thesis using fold_max_ge_elem [of s ss bs] by simp
qed

lemma best_match_spec:
  assumes "map (\<lambda>c. match_identifier fl fz c ident) cs = map Inr ss"
  shows "\<exists>bc'. best_match fl fz ident i cs (bc, bs) = Inr (bc', fold max ss bs)
           \<and> (if \<forall>s\<in>set ss. s \<le> bs then bc' = bc
              else \<exists>b<length ss. bc' = Some (i + b) \<and> ss ! b = fold max ss bs
                     \<and> (\<forall>j<b. ss ! j < ss ! b))"
  using assms
proof (induction cs arbitrary: ss i bc bs)
  case Nil
  then show ?case by simp
next
  case (Cons c cs)
  then obtain s ss' where ss: "ss = s # ss'"
    and m: "match_identifier fl fz c ident = Inr s"
    and rest: "map (\<lambda>c. match_identifier fl fz c ident) cs = map Inr ss'"
    by (cases ss) auto
  show ?case
  proof (cases "bs < s")
    case True
    from Cons.IH [OF rest, of "Suc i" "Some i" s]
    obtain bc' where run: "best_match fl fz ident (Suc i) cs (Some i, s) = Inr (bc', fold max ss' s)"
      and sel: "if \<forall>t\<in>set ss'. t \<le> s then bc' = Some i
                else \<exists>b<length ss'. bc' = Some (Suc i + b) \<and> ss' ! b = fold max ss' s
                       \<and> (\<forall>j<b. ss' ! j < ss' ! b)"
      by blast
    have mx: "max s bs = s"
      using True by simp
    have f: "fold max ss bs = fold max ss' s"
      by (simp add: ss mx)
    have "\<exists>b<length ss. bc' = Some (i + b) \<and> ss ! b = fold max ss bs \<and> (\<forall>j<b. ss ! j < ss ! b)"
    proof (cases "\<forall>t\<in>set ss'. t \<le> s")
      case all: True
      with sel have "bc' = Some i" by simp
      moreover have "ss ! 0 = fold max ss bs"
      proof -
        have "fold max ss' s = s" using all by (rule fold_max_init)
        then show ?thesis unfolding f by (simp add: ss)
      qed
      ultimately show ?thesis by (intro exI [of _ 0]) (simp add: ss)
    next
      case some: False
      with sel obtain b where b: "b < length ss'" "bc' = Some (Suc i + b)"
        "ss' ! b = fold max ss' s" "\<forall>j<b. ss' ! j < ss' ! b"
        by auto
      have "s < ss' ! b" using fold_max_above [OF some] b(3) by simp
      with b show ?thesis
        by (intro exI [of _ "Suc b"]) (auto simp: ss mx less_Suc_eq_0_disj)
    qed
    moreover have "(\<forall>t\<in>set ss. t \<le> bs) = False" using True by (auto simp: ss)
    ultimately show ?thesis
      using run True m by (auto simp: f)
  next
    case False
    from Cons.IH [OF rest, of "Suc i" bc bs]
    obtain bc' where run: "best_match fl fz ident (Suc i) cs (bc, bs) = Inr (bc', fold max ss' bs)"
      and sel: "if \<forall>t\<in>set ss'. t \<le> bs then bc' = bc
                else \<exists>b<length ss'. bc' = Some (Suc i + b) \<and> ss' ! b = fold max ss' bs
                       \<and> (\<forall>j<b. ss' ! j < ss' ! b)"
      by blast
    have mx: "max s bs = bs"
      using False by simp
    have f: "fold max ss bs = fold max ss' bs"
      by (simp add: ss mx)
    show ?thesis
    proof (cases "\<forall>t\<in>set ss'. t \<le> bs")
      case all: True
      with sel False run m show ?thesis by (simp add: ss mx)
    next
      case some: False
      with sel obtain b where b: "b < length ss'" "bc' = Some (Suc i + b)"
        "ss' ! b = fold max ss' bs" "\<forall>j<b. ss' ! j < ss' ! b"
        by auto
      have "s < ss' ! b" using fold_max_above [OF some] b(3) False by simp
      with b have "\<exists>b<length ss. bc' = Some (i + b) \<and> ss ! b = fold max ss bs
          \<and> (\<forall>j<b. ss ! j < ss ! b)"
        by (intro exI [of _ "Suc b"]) (auto simp: ss mx less_Suc_eq_0_disj)
      moreover have "(\<forall>t\<in>set ss. t \<le> bs) = False" using some by (auto simp: ss)
      ultimately show ?thesis using run False m by (auto simp: f)
    qed
  qed
qed

lemma best_match_start:
  assumes "map (\<lambda>c. match_identifier fl fz c ident) cs = map Inr ss"
  shows "\<exists>bc'. best_match fl fz ident 0 cs (None, 0) = Inr (bc', fold max ss 0)
           \<and> (if \<exists>i<length ss. 0 < ss ! i
              then \<exists>b<length ss. bc' = Some b \<and> ss ! b = fold max ss 0 \<and> 0 < ss ! b
                     \<and> (\<forall>j<length ss. ss ! j \<le> ss ! b) \<and> (\<forall>j<b. ss ! j < ss ! b)
              else bc' = None)"
proof -
  from best_match_spec [OF assms, of 0 None 0]
  obtain bc' where run: "best_match fl fz ident 0 cs (None, 0) = Inr (bc', fold max ss 0)"
    and sel: "if \<forall>s\<in>set ss. s \<le> 0 then bc' = None
              else \<exists>b<length ss. bc' = Some (0 + b) \<and> ss ! b = fold max ss 0
                     \<and> (\<forall>j<b. ss ! j < ss ! b)"
    by blast
  have "(\<exists>i<length ss. 0 < ss ! i) = (\<exists>s\<in>set ss. 0 < s)"
    by (metis in_set_conv_nth)
  then have iff: "(\<exists>i<length ss. 0 < ss ! i) = (\<not> (\<forall>s\<in>set ss. s \<le> 0))"
    by (simp add: not_le)
  show ?thesis
  proof (cases "\<forall>s\<in>set ss. s \<le> 0")
    case True
    with sel run iff show ?thesis by auto
  next
    case False
    with sel obtain b where b: "b < length ss" "bc' = Some b" "ss ! b = fold max ss 0"
      "\<forall>j<b. ss ! j < ss ! b"
      by auto
    have "0 < ss ! b" using fold_max_above [OF False] b(3) by simp
    moreover have "\<forall>j<length ss. ss ! j \<le> ss ! b"
      using fold_max_ge_elem [of _ ss 0] b(3) by simp
    ultimately show ?thesis using run b False iff by auto
  qed
qed

lemma assign_identifier_merge:
  assumes "map (\<lambda>c. match_identifier fl fz c ident) (clusters st) = map Inr ss"
    and "\<exists>i<length ss. 0 < ss ! i \<and> threshold_for fl settings (im_kind ident) \<le> ss ! i"
  shows "\<exists>b<length ss.
           assign_identifier fl fz settings st ident pg preferred force
             = Inr (merge_into st b ident pg (ss ! b), b, Merged)
           \<and> (\<forall>j<length ss. ss ! j \<le> ss ! b) \<and> (\<forall>j<b. ss ! j < ss ! b)"
proof -
  from assms(2) obtain i where i: "i < length ss" "0 < ss ! i"
    "threshold_for fl settings (im_kind ident) \<le> ss ! i"
    by blast
  then have pos: "\<exists>i<length ss. 0 < ss ! i" by blast
  from best_match_start [OF assms(1)] pos
  obtain b where run: "best_match fl fz ident 0 (clusters st) (None, 0) = Inr (Some b, ss ! b)"
    and b: "b < length ss" "\<forall>j<length ss. ss ! j \<le> ss ! b" "\<forall>j<b. ss ! j < ss ! b"
    by auto
  from b(2) i have "threshold_for fl settings (im_kind ident) \<le> ss ! b"
    by (meson order_trans)
  with run b show ?thesis
    by (auto simp: assign_identifier_def Let_def)
qed

lemma assign_identifier_no_merge:
  assumes "map (\<lambda>c. match_identifier fl fz c ident) (clusters st) = map Inr ss"
    and "\<not> (\<exists>i<length ss. 0 < ss ! i \<and> threshold_for fl settings (im_kind ident) \<le> ss ! i)"
  shows "\<exists>bc. best_match fl fz ident 0 (clusters st) (None, 0) = Inr (bc, fold max ss 0)
           \<and> \<not> (bc \<noteq> None \<and> threshold_for fl settings (im_kind ident) \<le> fold max ss 0)"
proof -
  from best_match_start [OF assms(1)]
  obtain bc where run: "best_match fl fz ident 0 (clusters st) (None, 0) = Inr (bc, fold max ss 0)"
    and sel: "if \<exists>i<length ss. 0 < ss ! i
              then \<exists>b<length ss. bc = Some b \<and> ss ! b = fold max ss 0 \<and> 0 < ss ! b
                     \<and> (\<forall>j<length ss. ss ! j \<le> ss ! b) \<and> (\<forall>j<b. ss ! j < ss ! b)
              else bc = None"
    by blast
  have "\<not> (bc \<noteq> None \<and> threshold_for fl settings (im_kind ident) \<le> fold max ss 0)"
  proof (cases "\<exists>i<length ss. 0 < ss ! i")
    case True
    with sel obtain b where "b < length ss" "ss ! b = fold max ss 0" "0 < ss ! b"
      by auto
    with assms(2) show ?thesis by metis
  next
    case False
    with sel show ?thesis by simp
  qed
  with run show ?thesis by blast
qed

lemma assign_identifier_attach:
  assumes "map (\<lambda>c. match_identifier fl fz c ident) (clusters st) = map Inr ss"
    and "\<not> (\<exists>i<length ss. 0 < ss ! i \<and> threshold_for fl settings (im_kind ident) \<le> ss ! i)"
  shows "assign_identifier fl fz settings st ident pg (Some p) True
           = Inr (merge_into st p ident pg (fold max ss 0), p, Attached)"
  using assign_identifier_no_merge [OF assms]
  by (auto simp: assign_identifier_def Let_def)

lemma assign_identifier_create:
  assumes "map (\<lambda>c. match_identifier fl fz c ident) (clusters st) = map Inr ss"
    and "\<not> (\<exists>i<length ss. 0 < ss ! i \<and> threshold_for fl settings (im_kind ident) \<le> ss ! i)"
  shows "assign_identifier fl fz settings st ident pg None False
           = Inr (fst (create_cluster st ident pg), length (clusters st), Created)"
proof -
  from assign_identifier_no_merge [OF assms]
  obtain bc where run: "best_match fl fz ident 0 (clusters st) (None, 0) = Inr (bc, fold max ss 0)"
    and no: "\<not> (bc \<noteq> None \<and> threshold_for fl settings (im_kind ident) \<le> fold max ss 0)"
    by blast
  have thr: "im_kind ident = ''name''
      \<Longrightarrow> threshold_for fl settings (im_kind ident) = name_match_threshold settings"
    by (simp add: threshold_for_def)
  from run no thr show ?thesis
    by (auto simp: assign_identifier_def Let_def create_cluster_def)
qed

lemma fold_max_key:
  "fold (\<lambda>y best. if f best < f y then y else best) rest (x :: 'a) \<in> set (x # rest)
   \<and> (\<forall>y\<in>set (x # rest). (f y :: nat) \<le> f (fold (\<lambda>y best. if f best < f y then y else best) rest x))"
proof (induction rest arbitrary: x)
  case Nil
  then show ?case by simp
next
  case (Cons z rest)
  show ?case
    using Cons [of "if f x < f z then z else x"] by (auto simp: le_less_trans less_imp_le split: if_splits)
qed

lemma max_by_key_spec:
  "xs \<noteq> [] \<Longrightarrow> \<exists>x\<in>set xs. max_by_key f xs = Inr x \<and> (\<forall>y\<in>set xs. f y \<le> f x)"
  using fold_max_key [of f "tl xs" "hd xs"]
  by (cases xs) (auto simp: max_by_key_def)

lemma nearest_anchor_preceding:
  assumes "\<exists>a\<in>set anchors. fst a \<le> idx"
  shows "\<exists>a\<in>set anchors. nearest_anchor idx anchors = Inr (snd a) \<and> fst a \<le> idx
           \<and> (\<forall>a'\<in>set anchors. fst a' \<le> idx \<longrightarrow> fst a' \<le> fst a)"
proof -
  let ?pre = "filter (\<lambda>item. fst item \<le> idx) anchors"
  from assms have ne: "?pre \<noteq> []"
    by (auto simp: filter_empty_conv)
  from max_by_key_spec [OF ne, of fst]
  obtain a where a: "a \<in> set ?pre" "max_by_key fst ?pre = Inr a" "\<forall>y\<in>set ?pre. fst y \<le> fst a"
    by blast
  have "nearest_anchor idx anchors = Inr (snd a)"
    using ne a(2) by (simp add: nearest_anchor_def Let_def ebind_def)
  with a show ?thesis by (intro bexI [of _ a]) auto
qed

lemma fold_min_key:
  "fold (\<lambda>y best. if (f y :: nat) < f best then y else best) rest (x :: 'a) \<in> set (x # rest)"
proof (induction rest arbitrary: x)
  case Nil
  then show ?case by simp
next
  case (Cons z rest)
  show ?case
    using Cons [of "if f z < f x then z else x"] by (auto split: if_splits)
qed

lemma min_by_key_total: "xs \<noteq> [] \<Longrightarrow> \<exists>x\<in>set xs. min_by_key f xs = Inr x"
  using fold_min_key [of f "tl xs" "hd xs"]
  by (cases xs) (auto simp: min_by_key_def)

lemma nearest_anchor_total:
  assumes "anchors \<noteq> []"
  shows "\<exists>p. nearest_anchor idx anchors = Inr p"
proof (cases "filter (\<lambda>item. fst item \<le> idx) anchors = []")
  case True
  with min_by_key_total [OF assms, of fst] show ?thesis
    by (auto simp: nearest_anchor_def Let_def ebind_def)
next
  case False
  with max_by_key_spec [OF False, of fst] show ?thesis
    by (auto simp: nearest_anchor_def Let_def ebind_def)
qed

lemma link_step_result:
  assumes "assign_identifier fl fz settings st ident pg preferred force = Inr (st', c, taken)"
    and "if anchors \<noteq> [] \<and> im_kind ident \<in> supportive_kinds
         then \<exists>p. nearest_anchor idx anchors = Inr p \<and> preferred = Some p \<and> force
         else preferred = None \<and> \<not> force"
  shows "\<exists>anchors'. link_step fl fz settings pg (idx, ident) (st, anchors) = Inr (st', anchors')"
  using assms by (auto simp: link_step_def Let_def ebind_def split: if_splits)

text \<open>
  Claim C3, as the code has it. Let \<open>ss\<close> be the similarities of the identifier to the
  existing clusters (no comparison raising), in cluster order.
  \<^item> If some similarity is above zero and reaches the merge threshold of the kind, the
    identifier is merged into the first cluster of largest similarity, whatever the
    anchors are.
  \<^item> Otherwise, if the kind is supportive and an anchor was recorded at an earlier
    position of the page, the identifier is merged into the cluster of the nearest such
    anchor.
  \<^item> Otherwise, if the kind is not supportive or the page has no anchor yet, a new cluster
    seeded with the identifier alone is appended.
\<close>

theorem link_step_precedence:
  assumes "map (\<lambda>c. match_identifier fl fz c ident) (clusters st) = map Inr ss"
  shows
    "((\<exists>i<length ss. 0 < ss ! i \<and> threshold_for fl settings (im_kind ident) \<le> ss ! i) \<longrightarrow>
        (\<exists>b<length ss. \<exists>anchors'.
           link_step fl fz settings pg (idx, ident) (st, anchors)
             = Inr (merge_into st b ident pg (ss ! b), anchors')
           \<and> (\<forall>j<length ss. ss ! j \<le> ss ! b) \<and> (\<forall>j<b. ss ! j < ss ! b)))
     \<and> (\<not> (\<exists>i<length ss. 0 < ss ! i \<and> threshold_for fl settings (im_kind ident) \<le> ss ! i)
          \<and> im_kind ident \<in> supportive_kinds \<and> (\<exists>a\<in>set anchors. fst a \<le> idx) \<longrightarrow>
        (\<exists>a\<in>set anchors. \<exists>anchors'.
           link_step fl fz settings pg (idx, ident) (st, anchors)
             = Inr (merge_into st (snd a) ident pg (fold max ss 0), anchors')
           \<and> fst a \<le> idx \<and> (\<forall>a'\<in>set anchors. fst a' \<le> idx \<longrightarrow> fst a' \<le> fst a)))
     \<and> (\<not> (\<exists>i<length ss. 0 < ss ! i \<and> threshold_for fl settings (im_kind ident) \<le> ss ! i)
          \<and> \<not> (im_kind ident \<in> supportive_kinds \<and> anchors \<noteq> []) \<longrightarrow>
        (\<exists>anchors'.
           link_step fl fz settings pg (idx, ident) (st, anchors)
             = Inr (\<lparr>clusters = clusters st @
                       [\<lparr>cc_patient_id = format_patient_id (next_patient st),
                         cc_identifiers =
                           [(im_kind ident,
                             \<lparr>li_kind = im_kind ident, li_value = im_value ident,
                              li_confidence = im_confidence ident,
                              li_sources = [(pg, im_word_indices ident)]\<rparr>)],
                         cc_pages = [pg], cc_score = im_confidence ident\<rparr>],
                     next_patient = Suc (next_patient st)\<rparr>, anchors')))"
proof (intro conjI impI)
  let ?thr = "threshold_for fl settings (im_kind ident)"
  let ?supp = "anchors \<noteq> [] \<and> im_kind ident \<in> supportive_kinds"
  {
    assume hit: "\<exists>i<length ss. 0 < ss ! i \<and> ?thr \<le> ss ! i"
    obtain preferred force where pf:
      "if ?supp then \<exists>p. nearest_anchor idx anchors = Inr p \<and> preferred = Some p \<and> force
       else preferred = None \<and> \<not> force"
      using nearest_anchor_total [of anchors idx] by (cases ?supp) auto
    from assign_identifier_merge [OF assms hit, of pg preferred force]
    obtain b where b: "b < length ss"
      "assign_identifier fl fz settings st ident pg preferred force
         = Inr (merge_into st b ident pg (ss ! b), b, Merged)"
      "\<forall>j<length ss. ss ! j \<le> ss ! b" "\<forall>j<b. ss ! j < ss ! b"
      by blast
    from link_step_result [OF b(2) pf] b
    show "\<exists>b<length ss. \<exists>anchors'.
           link_step fl fz settings pg (idx, ident) (st, anchors)
             = Inr (merge_into st b ident pg (ss ! b), anchors')
           \<and> (\<forall>j<length ss. ss ! j \<le> ss ! b) \<and> (\<forall>j<b. ss ! j < ss ! b)"
      by blast
  next
    assume h: "\<not> (\<exists>i<length ss. 0 < ss ! i \<and> ?thr \<le> ss ! i)
          \<and> im_kind ident \<in> supportive_kinds \<and> (\<exists>a\<in>set anchors. fst a \<le> idx)"
    then have miss: "\<not> (\<exists>i<length ss. 0 < ss ! i \<and> ?thr \<le> ss ! i)"
      and supp: ?supp and pre: "\<exists>a\<in>set anchors. fst a \<le> idx"
      by auto
    from nearest_anchor_preceding [OF pre]
    obtain a where a: "a \<in> set anchors" "nearest_anchor idx anchors = Inr (snd a)"
      "fst a \<le> idx" "\<forall>a'\<in>set anchors. fst a' \<le> idx \<longrightarrow> fst a' \<le> fst a"
      by blast
    have pf: "if ?supp then \<exists>p. nearest_anchor idx anchors = Inr p \<and> Some (snd a) = Some p \<and> True
       else Some (snd a) = None \<and> \<not> True"
      using supp a(2) by simp
    from link_step_result [OF assign_identifier_attach [OF assms miss] pf] a
    show "\<exists>a\<in>set anchors. \<exists>anchors'.
           link_step fl fz settings pg (idx, ident) (st, anchors)
             = Inr (merge_into st (snd a) ident pg (fold max ss 0), anchors')
           \<and> fst a \<le> idx \<and> (\<forall>a'\<in>set anchors. fst a' \<le> idx \<longrightarrow> fst a' \<le> fst a)"
      by blast
  next
    assume h: "\<not> (\<exists>i<length ss. 0 < ss ! i \<and> ?thr \<le> ss ! i)
          \<and> \<not> (im_kind ident \<in> supportive_kinds \<and> anchors \<noteq> [])"
    then have miss: "\<not> (\<exists>i<length ss. 0 < ss ! i \<and> ?thr \<le> ss ! i)"
      and nsupp: "\<not> ?supp"
      by auto
    have pf: "if ?supp then \<exists>p. nearest_anchor idx anchors = Inr p \<and> None = Some p \<and> False
       else (None :: nat option) = None \<and> \<not> False"
      using nsupp by simp
    from link_step_result [OF assign_identifier_create [OF assms miss] pf]
    show "\<exists>anchors'.
           link_step fl fz settings pg (idx, ident) (st, anchors)
             = Inr (\<lparr>clusters = clusters st @
                       [\<lparr>cc_patient_id = format_patient_id (next_patient st),
                         cc_identifiers =
                           [(im_kind ident,
                             \<lparr>li_kind = im_kind ident, li_value = im_value ident,
                              li_confidence = im_confidence ident,
                              li_sources = [(pg, im_word_indices ident)]\<rparr>)],
                         cc_pages = [pg], cc_score = im_confidence ident\<rparr>],
                     next_patient = Suc (next_patient st)\<rparr>, anchors')"
      by (simp add: create_cluster_def Let_def)
  }
qed

lemma score_dob_example: "score_dob ''01/02/1990'' ''1/2/90'' = Inr 1"
  by (simp add: score_dob_def normalize_dob_def replace_char_def py_int_def strip_chars_def
        is_int_space_def is_digit_def ebind_def zfill_def digit_val_def)

theorem link_step_precedence_witness:
  "(\<exists>anchors'.
      link_step decimal_arith (constant_fuzz 0) decimal_settings 1 (0, mk_identifier ''dob'' ''1/2/90'' (8 / 10))
        (\<lparr>clusters = [dob_cluster], next_patient = 2\<rparr>, [])
      = Inr (merge_into \<lparr>clusters = [dob_cluster], next_patient = 2\<rparr> 0
               (mk_identifier ''dob'' ''1/2/90'' (8 / 10)) 1 1, anchors'))
   \<and> (\<exists>anchors'.
      link_step decimal_arith (constant_fuzz 0) decimal_settings 0 (1, mk_identifier ''name'' ''John Doe'' (8 / 10))
        (\<lparr>clusters = [mrn_cluster], next_patient = 2\<rparr>, [(0, 0)])
      = Inr (merge_into \<lparr>clusters = [mrn_cluster], next_patient = 2\<rparr> 0
               (mk_identifier ''name'' ''John Doe'' (8 / 10)) 0 0, anchors'))
   \<and> (\<exists>anchors'.
      link_step decimal_arith (constant_fuzz 0) decimal_settings 0 (1, mk_identifier ''mrn'' ''67890'' (8 / 10))
        (\<lparr>clusters = [mrn_cluster], next_patient = 2\<rparr>, [(0, 0)])
      = Inr (\<lparr>clusters =
                [mrn_cluster,
                 \<lparr>cc_patient_id = format_patient_id 2,
                  cc_identifiers = [(''mrn'', \<lparr>li_kind = ''mrn'', li_value = ''67890'',
                                     li_confidence = 8 / 10, li_sources = [(0, [])]\<rparr>)],
                  cc_pages = [0], cc_score = 8 / 10\<rparr>],
              next_patient = 3\<rparr>, anchors'))"
proof -
  have a: "map (\<lambda>c. match_identifier decimal_arith (constant_fuzz 0) c (mk_identifier ''dob'' ''1/2/90'' (8 / 10)))
             (clusters \<lparr>clusters = [dob_cluster], next_patient = 2\<rparr>) = map Inr [1]"
    by (simp add: match_identifier_def dob_cluster_def mk_identifier_def score_dob_example)
  have b: "map (\<lambda>c. match_identifier decimal_arith (constant_fuzz 0) c (mk_identifier ''name'' ''John Doe'' (8 / 10)))
             (clusters \<lparr>clusters = [mrn_cluster], next_patient = 2\<rparr>) = map Inr [0]"
    by (simp add: match_identifier_def mrn_cluster_def mk_identifier_def)
  have c: "map (\<lambda>c. match_identifier decimal_arith (constant_fuzz 0) c (mk_identifier ''mrn'' ''67890'' (8 / 10)))
             (clusters \<lparr>clusters = [mrn_cluster], next_patient = 2\<rparr>) = map Inr [0]"
    by (simp add: match_identifier_def mrn_cluster_def mk_identifier_def score_mrn_other)
  have A: "\<exists>anchors'.
      link_step decimal_arith (constant_fuzz 0) decimal_settings 1 (0, mk_identifier ''dob'' ''1/2/90'' (8 / 10))
        (\<lparr>clusters = [dob_cluster], next_patient = 2\<rparr>, [])
      = Inr (merge_into \<lparr>clusters = [dob_cluster], next_patient = 2\<rparr> 0
               (mk_identifier ''dob'' ''1/2/90'' (8 / 10)) 1 1, anchors')"
    using link_step_precedence [OF a, of decimal_settings 1 0 "[]"]
    by (auto simp: threshold_for_def decimal_settings_def default_settings_def decimal_arith_ops mk_identifier_def)
  have B: "\<exists>anchors'.
      link_step decimal_arith (constant_fuzz 0) decimal_settings 0 (1, mk_identifier ''name'' ''John Doe'' (8 / 10))
        (\<lparr>clusters = [mrn_cluster], next_patient = 2\<rparr>, [(0, 0)])
      = Inr (merge_into \<lparr>clusters = [mrn_cluster], next_patient = 2\<rparr> 0
               (mk_identifier ''name'' ''John Doe'' (8 / 10)) 0 0, anchors')"
    using link_step_precedence [OF b, of decimal_settings 0 1 "[(0, 0)]"]
    by (auto simp: threshold_for_def decimal_settings_def default_settings_def decimal_arith_ops mk_identifier_def supportive_kinds_def)
  have C: "\<exists>anchors'.
      link_step decimal_arith (constant_fuzz 0) decimal_settings 0 (1, mk_identifier ''mrn'' ''67890'' (8 / 10))
        (\<lparr>clusters = [mrn_cluster], next_patient = 2\<rparr>, [(0, 0)])
      = Inr (\<lparr>clusters =
                [mrn_cluster,
                 \<lparr>cc_patient_id = format_patient_id 2,
                  cc_identifiers = [(''mrn'', \<lparr>li_kind = ''mrn'', li_value = ''67890'',
                                     li_confidence = 8 / 10, li_sources = [(0, [])]\<rparr>)],
                  cc_pages = [0], cc_score = 8 / 10\<rparr>],
              next_patient = 3\<rparr>, anchors')"
    using link_step_precedence [OF c, of decimal_settings 0 1 "[(0, 0)]"]
    by (auto simp: threshold_for_def decimal_settings_def default_settings_def decimal_arith_ops mk_identifier_def supportive_kinds_def)
  from A B C show ?thesis by blast
qed

text \<open>
  The claim as stated also promises a merge when a similarity of zero meets a threshold
  of zero. The loop only ever selects a cluster whose score is above the initial 0, so with
  the date threshold at zero a date that matches no cluster still opens a new cluster.
\<close>

theorem zero_threshold_counterexample:
  "match_identifier decimal_arith (constant_fuzz 0) mrn_cluster (mk_identifier ''dob'' ''01/02/1990'' (9 / 10)) = Inr 0
   \<and> threshold_for decimal_arith zero_dob_settings ''dob'' = 0
   \<and> link_step decimal_arith (constant_fuzz 0) zero_dob_settings 1
        (0, mk_identifier ''dob'' ''01/02/1990'' (9 / 10))
        (\<lparr>clusters = [mrn_cluster], next_patient = 2\<rparr>, [])
      = Inr (\<lparr>clusters =
                [mrn_cluster,
                 \<lparr>cc_patient_id = ''patient_002'',
                  cc_identifiers = [(''dob'', \<lparr>li_kind = ''dob'', li_value = ''01/02/1990'',
                                     li_confidence = 9 / 10, li_sources = [(1, [])]\<rparr>)],
                  cc_pages = [1], cc_score = 9 / 10\<rparr>],
              next_patient = 3\<rparr>, [(0, 1)])"
  by (simp add: link_step_def assign_identifier_def create_cluster_def match_identifier_def
        mrn_cluster_def mk_identifier_def ebind_def Let_def threshold_for_def
        zero_dob_settings_def decimal_settings_def default_settings_def decimal_arith_ops supportive_kinds_def anchor_kinds_def
        format_patient_id_def str_nat.simps digit_char_def zfill_def eval_nat_numeral)

section \<open>Page assigner: properties\<close>

subsection \<open>Running the assigner on a date of birth\<close>

lemma round3_fifth: "decimal_round3 (1 / 5) = 1 / 5"
  by (simp add: decimal_round3_def round_half_even_def Let_def)

lemma weights_default: "weights decimal_arith decimal_settings = [(''mrn'', 4 / 10), (''dob'', 2 / 10), (''phone'', 1 / 10), (''name'', 3 / 10)]"
  by (simp add: weights_def decimal_settings_def default_settings_def decimal_arith_ops Let_def)

lemma score_dob_same: "score_dob ''01/02/1990'' ''01/02/1990'' = Inr 1"
  by (simp add: score_dob_def normalize_dob_good ebind_def)

lemma score_dob_short: "score_dob ''01/02/1990'' ''1/2/90'' = Inr 1"
  by (simp add: score_dob_def normalize_dob_def replace_char_def py_int_def strip_chars_def
        is_int_space_def is_digit_def ebind_def zfill_def digit_val_def)

lemma score_page_dob:
  "weights decimal_arith settings = weights decimal_arith decimal_settings \<Longrightarrow> score_dob ''01/02/1990'' v = Inr 1 \<Longrightarrow>
   score_page decimal_arith fz settings dob_page (dob_patient pid v)
     = Inr \<lparr>as_patient_id = pid, as_score = 1 / 5,
            as_reasons = [\<lparr>ar_kind = ''dob'', ar_value = (if v = [] then ''01/02/1990'' else v), ar_score = 1 / 5\<rparr>]\<rparr>"
  by (simp add: score_page_def score_identifier_def compare_def dob_page_def dob_patient_def
        mk_page_def mk_identifier_def ebind_def Let_def weights_default round3_fifth decimal_arith_ops)

lemma sort_scores_set: "set (sort_scores xs) = set xs"
  by (simp add: sort_scores_def)

lemma sort_scores_sorted: "sorted (map (\<lambda>s. - as_score s) (sort_scores xs))"
  by (simp add: sort_scores_def)

text \<open>The head of the ranking has a positive score, and no ranked score is above it.\<close>

lemma ranked_scores_top:
  assumes "ranked_scores fl fz settings page patients = Inr (best # rest)"
  shows "0 < as_score best \<and> (\<forall>s\<in>set rest. 0 < as_score s \<and> as_score s \<le> as_score best)"
proof -
  from assms obtain scores
    where r': "sort_scores (filter (\<lambda>s. 0 < as_score s) scores) = best # rest"
    by (auto simp: ranked_scores_def ebind_def split: sum.splits)
  note r = r' [symmetric]
  have "set (best # rest) = set (filter (\<lambda>s. 0 < as_score s) scores)"
    by (simp only: r sort_scores_set)
  then have pos: "\<forall>s\<in>set (best # rest). 0 < as_score s"
    by auto
  have "sorted (map (\<lambda>s. - as_score s) (best # rest))"
    by (simp only: r sort_scores_sorted)
  then have "\<forall>s\<in>set rest. as_score s \<le> as_score best"
    by auto
  with pos show ?thesis by simp
qed

subsection \<open>The minimum-confidence check\<close>

text \<open>
  Claim C2, as the code has it. Let \<open>best\<close> be the head of the ranking of a page, the
  cluster of largest score among those above zero, and let that score be below the
  minimum assignment confidence. Then the page is flagged for manual review with the
  score of \<open>best\<close> as confidence; when pages may stay unassigned the patient id is absent
  and the reasons are empty; when they may not, the patient id of \<open>best\<close> is kept
  together with the reasons of \<open>best\<close>.
\<close>

theorem min_confidence_assignment:
  assumes "ranked_scores fl fz settings page patients = Inr (best # rest)"
    and "as_score best < assign_min_confidence settings"
  shows "0 < as_score best
     \<and> (\<exists>r. assign_single_page fl fz settings page patients = Inr r
            \<and> pa_page_index r = pe_page_index page
            \<and> pa_manual_review r
            \<and> pa_confidence r = as_score best
            \<and> (assign_allow_unassigned settings \<longrightarrow>
                  pa_patient_id r = None \<and> pa_reasons r = [])
            \<and> (\<not> assign_allow_unassigned settings \<longrightarrow>
                  pa_patient_id r = Some (as_patient_id best) \<and> pa_reasons r = as_reasons best))"
  using assms ranked_scores_top [OF assms(1)]
  by (simp add: assign_single_page_def ebind_def Let_def)

theorem min_confidence_assignment_witness:
  "(\<exists>r. assign_single_page decimal_arith (constant_fuzz 0) decimal_settings dob_page
           [dob_patient ''patient_001'' ''01/02/1990''] = Inr r
         \<and> pa_manual_review r \<and> pa_confidence r = 1 / 5
         \<and> pa_patient_id r = None \<and> pa_reasons r = [])
   \<and> (\<exists>r. assign_single_page decimal_arith (constant_fuzz 0) keep_id_settings dob_page
           [dob_patient ''patient_001'' ''01/02/1990''] = Inr r
         \<and> pa_manual_review r \<and> pa_confidence r = 1 / 5
         \<and> pa_patient_id r = Some ''patient_001''
         \<and> pa_reasons r = [\<lparr>ar_kind = ''dob'', ar_value = ''01/02/1990'', ar_score = 1 / 5\<rparr>])"
proof -
  have w: "weights decimal_arith keep_id_settings = weights decimal_arith decimal_settings"
    by (simp add: weights_def keep_id_settings_def)
  have a: "ranked_scores decimal_arith (constant_fuzz 0) decimal_settings dob_page
             [dob_patient ''patient_001'' ''01/02/1990'']
           = Inr (\<lparr>as_patient_id = ''patient_001'', as_score = 1 / 5,
                   as_reasons = [\<lparr>ar_kind = ''dob'', ar_value = ''01/02/1990'',
                                  ar_score = 1 / 5\<rparr>]\<rparr> # [])"
    by (simp add: ranked_scores_def sort_scores_def score_page_dob [OF refl score_dob_same]
          ebind_def)
  have b: "ranked_scores decimal_arith (constant_fuzz 0) keep_id_settings dob_page
             [dob_patient ''patient_001'' ''01/02/1990'']
           = Inr (\<lparr>as_patient_id = ''patient_001'', as_score = 1 / 5,
                   as_reasons = [\<lparr>ar_kind = ''dob'', ar_value = ''01/02/1990'',
                                  ar_score = 1 / 5\<rparr>]\<rparr> # [])"
    by (simp add: ranked_scores_def sort_scores_def score_page_dob [OF w score_dob_same]
          ebind_def)
  have la: "as_score \<lparr>as_patient_id = ''patient_001'', as_score = 1 / 5,
                   as_reasons = [\<lparr>ar_kind = ''dob'', ar_value = ''01/02/1990'',
                                  ar_score = 1 / 5\<rparr>]\<rparr> < assign_min_confidence decimal_settings"
    by (simp add: decimal_settings_def default_settings_def decimal_arith_ops)
  have lb: "as_score \<lparr>as_patient_id = ''patient_001'', as_score = 1 / 5,
                   as_reasons = [\<lparr>ar_kind = ''dob'', ar_value = ''01/02/1990'',
                                  ar_score = 1 / 5\<rparr>]\<rparr> < assign_min_confidence keep_id_settings"
    by (simp add: keep_id_settings_def decimal_settings_def default_settings_def decimal_arith_ops)
  show ?thesis
    using min_confidence_assignment [OF a la] min_confidence_assignment [OF b lb]
    by (auto simp: keep_id_settings_def decimal_settings_def default_settings_def decimal_arith_ops)
qed

text \<open>
  With \<^verbatim>\<open>assign_allow_unassigned = False\<close> the reasons are those of the top cluster, not the
  empty list: a page with one date of birth that scores 0.2 against the only patient keeps
  the patient id and its one reason.
\<close>

theorem keep_id_keeps_reasons_counterexample:
  "assign_min_confidence keep_id_settings = 6 / 10
   \<and> \<not> assign_allow_unassigned keep_id_settings
   \<and> assign_single_page decimal_arith (constant_fuzz 0) keep_id_settings dob_page
        [dob_patient ''patient_001'' ''01/02/1990'']
      = Inr \<lparr>pa_page_index = 0, pa_patient_id = Some ''patient_001'', pa_confidence = 1 / 5,
             pa_reasons = [\<lparr>ar_kind = ''dob'', ar_value = ''01/02/1990'', ar_score = 1 / 5\<rparr>],
             pa_manual_review = True\<rparr>"
proof -
  have w: "weights decimal_arith keep_id_settings = weights decimal_arith decimal_settings"
    by (simp add: weights_def keep_id_settings_def)
  show ?thesis
    by (simp add: assign_single_page_def ranked_scores_def sort_scores_def
          score_page_dob [OF w score_dob_same] ebind_def Let_def)
       (simp add: keep_id_settings_def decimal_settings_def default_settings_def decimal_arith_ops dob_page_def mk_page_def)
qed

subsection \<open>The ambiguity check\<close>

lemma emap_nth:
  "emap f xs = Inr ys \<Longrightarrow> length ys = length xs \<and> (\<forall>i<length xs. f (xs ! i) = Inr (ys ! i))"
proof (induction xs arbitrary: ys)
  case Nil
  then show ?case by simp
next
  case (Cons x xs)
  then show ?case
    by (auto split: sum.splits simp: nth_Cons split: nat.splits)
qed

text \<open>What the loop of \<^verbatim>\<open>assign_pages\<close> adds to the three lists.\<close>

lemma assign_pages_fold:
  "efold (assign_page_step fl fz settings patients) pages acc = Inr summary \<Longrightarrow>
   \<exists>rs. emap (\<lambda>p. assign_single_page fl fz settings p patients) pages = Inr rs
     \<and> assignments summary = assignments acc @ rs
     \<and> unassigned_pages summary
         = unassigned_pages acc @
           map (\<lambda>pr. pe_page_index (fst pr))
             (filter (\<lambda>pr. pa_patient_id (snd pr) = None) (zip pages rs))
     \<and> ambiguous_pages summary
         = ambiguous_pages acc @
           map (\<lambda>pr. pe_page_index (fst pr))
             (filter (\<lambda>pr. pa_patient_id (snd pr) \<noteq> None \<and> pa_manual_review (snd pr))
                (zip pages rs))"
proof (induction pages arbitrary: acc)
  case Nil
  then show ?case by simp
next
  case (Cons p pages)
  from Cons.prems obtain acc'
    where step: "assign_page_step fl fz settings patients p acc = Inr acc'"
      and rest: "efold (assign_page_step fl fz settings patients) pages acc' = Inr summary"
    by (cases "assign_page_step fl fz settings patients p acc") simp_all
  from step obtain r where r: "assign_single_page fl fz settings p patients = Inr r"
    by (cases "assign_single_page fl fz settings p patients")
       (simp_all add: assign_page_step_def ebind_def)
  from Cons.IH [OF rest] obtain rs
    where rs: "emap (\<lambda>p. assign_single_page fl fz settings p patients) pages = Inr rs"
      "assignments summary = assignments acc' @ rs"
      "unassigned_pages summary
         = unassigned_pages acc' @
           map (\<lambda>pr. pe_page_index (fst pr))
             (filter (\<lambda>pr. pa_patient_id (snd pr) = None) (zip pages rs))"
      "ambiguous_pages summary
         = ambiguous_pages acc' @
           map (\<lambda>pr. pe_page_index (fst pr))
             (filter (\<lambda>pr. pa_patient_id (snd pr) \<noteq> None \<and> pa_manual_review (snd pr))
                (zip pages rs))"
    by blast
  from step r have acc': "acc' =
      \<lparr>assignments = assignments acc @ [r],
       unassigned_pages = (if pa_patient_id r = None then unassigned_pages acc @ [pe_page_index p]
                           else unassigned_pages acc),
       ambiguous_pages = (if pa_patient_id r = None then ambiguous_pages acc
                          else if pa_manual_review r then ambiguous_pages acc @ [pe_page_index p]
                          else ambiguous_pages acc)\<rparr>"
    by (simp add: assign_page_step_def ebind_def)
  show ?case
    by (rule exI [of _ "r # rs"]) (simp add: r rs acc')
qed

lemma zip_member:
  "length xs = length ys \<Longrightarrow> i < length xs \<Longrightarrow> (xs ! i, ys ! i) \<in> set (zip xs ys)"
  by (metis in_set_zip fst_conv snd_conv)

lemma zip_distinct_key:
  assumes "distinct (map f xs)" and "length xs = length ys" and "i < length xs"
    and "(x, y) \<in> set (zip xs ys)" and "f x = f (xs ! i)"
  shows "y = ys ! i"
proof -
  from assms(4) obtain j where j: "j < length xs" "j < length ys" "xs ! j = x" "ys ! j = y"
    by (auto simp: in_set_zip)
  with assms(1,3,5) have "j = i"
    by (metis distinct_conv_nth length_map nth_map)
  with j show ?thesis by simp
qed

text \<open>
  Claim C4, as the code has it. Let at least two clusters score above zero on page \<open>i\<close>
  and let the difference of the two largest scores, as the float subtraction returns it,
  be no more than the ambiguity margin. Then the
  assignment of the page is flagged for manual review. Its patient id is absent exactly
  when the top score is below the minimum confidence and pages may stay unassigned. When a
  patient id is assigned, the page index is in \<^verbatim>\<open>ambiguous_pages\<close>; when none is assigned, it
  is in \<^verbatim>\<open>unassigned_pages\<close>, and, page indices being distinct, not in
  \<^verbatim>\<open>ambiguous_pages\<close>.
\<close>

theorem ambiguity_flagging:
  assumes "assign_pages fl fz settings pages patients = Inr summary"
    and "i < length pages"
    and "ranked_scores fl fz settings (pages ! i) patients = Inr (best # second # rest)"
    and "fl_sub fl (as_score best) (as_score second) \<le> assign_ambiguity_margin settings"
  shows "i < length (assignments summary)
     \<and> pa_page_index (assignments summary ! i) = pe_page_index (pages ! i)
     \<and> pa_manual_review (assignments summary ! i)
     \<and> (pa_patient_id (assignments summary ! i) = None)
         = (as_score best < assign_min_confidence settings \<and> assign_allow_unassigned settings)
     \<and> (pa_patient_id (assignments summary ! i) \<noteq> None \<longrightarrow>
           pe_page_index (pages ! i) \<in> set (ambiguous_pages summary))
     \<and> (pa_patient_id (assignments summary ! i) = None \<longrightarrow>
           pe_page_index (pages ! i) \<in> set (unassigned_pages summary)
           \<and> (distinct (map pe_page_index pages) \<longrightarrow>
                pe_page_index (pages ! i) \<notin> set (ambiguous_pages summary)))"
proof -
  from assign_pages_fold [OF assms(1) [unfolded assign_pages_def]] obtain rs
    where rs: "emap (\<lambda>p. assign_single_page fl fz settings p patients) pages = Inr rs"
      and a: "assignments summary = rs"
      and u: "unassigned_pages summary
         = map (\<lambda>pr. pe_page_index (fst pr))
             (filter (\<lambda>pr. pa_patient_id (snd pr) = None) (zip pages rs))"
      and m: "ambiguous_pages summary
         = map (\<lambda>pr. pe_page_index (fst pr))
             (filter (\<lambda>pr. pa_patient_id (snd pr) \<noteq> None \<and> pa_manual_review (snd pr))
                (zip pages rs))"
    by auto
  from emap_nth [OF rs] assms(2)
  have len: "length rs = length pages"
    and r: "assign_single_page fl fz settings (pages ! i) patients = Inr (rs ! i)"
    by auto
  have "assign_single_page fl fz settings (pages ! i) patients
      = Inr (if as_score best < assign_min_confidence settings
             then \<lparr>pa_page_index = pe_page_index (pages ! i),
                   pa_patient_id = (if assign_allow_unassigned settings then None
                                    else Some (as_patient_id best)),
                   pa_confidence = as_score best,
                   pa_reasons = (if \<not> assign_allow_unassigned settings then as_reasons best
                                 else []),
                   pa_manual_review = True\<rparr>
             else \<lparr>pa_page_index = pe_page_index (pages ! i),
                   pa_patient_id = Some (as_patient_id best),
                   pa_confidence = as_score best, pa_reasons = as_reasons best,
                   pa_manual_review = True\<rparr>)"
    using assms(3,4) by (simp add: assign_single_page_def ebind_def Let_def)
  with r have rsi: "rs ! i
      = (if as_score best < assign_min_confidence settings
         then \<lparr>pa_page_index = pe_page_index (pages ! i),
               pa_patient_id = (if assign_allow_unassigned settings then None
                                else Some (as_patient_id best)),
               pa_confidence = as_score best,
               pa_reasons = (if \<not> assign_allow_unassigned settings then as_reasons best
                             else []),
               pa_manual_review = True\<rparr>
         else \<lparr>pa_page_index = pe_page_index (pages ! i),
               pa_patient_id = Some (as_patient_id best),
               pa_confidence = as_score best, pa_reasons = as_reasons best,
               pa_manual_review = True\<rparr>)"
    by simp
  have idx: "pa_page_index (rs ! i) = pe_page_index (pages ! i)"
    and rev: "pa_manual_review (rs ! i)"
    and pid: "(pa_patient_id (rs ! i) = None)
         = (as_score best < assign_min_confidence settings \<and> assign_allow_unassigned settings)"
    by (simp_all add: rsi)
  have mem: "(pages ! i, rs ! i) \<in> set (zip pages rs)"
    using zip_member [of pages rs i] len assms(2) by simp
  have amb: "pa_patient_id (rs ! i) \<noteq> None \<Longrightarrow> pe_page_index (pages ! i) \<in> set (ambiguous_pages summary)"
    using mem rev unfolding m by force
  have una: "pa_patient_id (rs ! i) = None \<Longrightarrow> pe_page_index (pages ! i) \<in> set (unassigned_pages summary)"
    using mem unfolding u by force
  have notamb: "pe_page_index (pages ! i) \<notin> set (ambiguous_pages summary)"
    if none: "pa_patient_id (rs ! i) = None" and d: "distinct (map pe_page_index pages)"
  proof
    assume "pe_page_index (pages ! i) \<in> set (ambiguous_pages summary)"
    then obtain p r' where pr: "(p, r') \<in> set (zip pages rs)" "pa_patient_id r' \<noteq> None"
      "pe_page_index p = pe_page_index (pages ! i)"
      unfolding m by auto
    from zip_distinct_key [OF d len [symmetric] assms(2) pr(1) pr(3)] have "r' = rs ! i" .
    with pr(2) none show False by simp
  qed
  from len assms(2) idx rev pid amb una notamb show ?thesis
    by (simp add: a)
qed

lemma ranked_two_dob:
  assumes "weights decimal_arith settings = weights decimal_arith decimal_settings"
  shows "ranked_scores decimal_arith (constant_fuzz 0) settings dob_page two_dob_patients
     = Inr (\<lparr>as_patient_id = ''patient_001'', as_score = 1 / 5,
              as_reasons = [\<lparr>ar_kind = ''dob'', ar_value = ''01/02/1990'', ar_score = 1 / 5\<rparr>]\<rparr>
            # \<lparr>as_patient_id = ''patient_002'', as_score = 1 / 5,
                as_reasons = [\<lparr>ar_kind = ''dob'', ar_value = ''1/2/90'', ar_score = 1 / 5\<rparr>]\<rparr>
            # [])"
  by (simp add: ranked_scores_def sort_scores_def two_dob_patients_def ebind_def
        score_page_dob [OF assms score_dob_same] score_page_dob [OF assms score_dob_short])

theorem ambiguity_flagging_witness:
  "\<exists>summary. assign_pages decimal_arith (constant_fuzz 0) low_bar_settings [dob_page] two_dob_patients = Inr summary
     \<and> pa_manual_review (assignments summary ! 0)
     \<and> pa_patient_id (assignments summary ! 0) = Some ''patient_001''
     \<and> 0 \<in> set (ambiguous_pages summary)"
proof -
  have w: "weights decimal_arith low_bar_settings = weights decimal_arith decimal_settings"
    by (simp add: weights_def low_bar_settings_def)
  have run: "assign_pages decimal_arith (constant_fuzz 0) low_bar_settings [dob_page] two_dob_patients
     = Inr \<lparr>assignments = [\<lparr>pa_page_index = 0, pa_patient_id = Some ''patient_001'',
                             pa_confidence = 1 / 5,
                             pa_reasons = [\<lparr>ar_kind = ''dob'', ar_value = ''01/02/1990'',
                                            ar_score = 1 / 5\<rparr>],
                             pa_manual_review = True\<rparr>],
            unassigned_pages = [], ambiguous_pages = [0]\<rparr>"
    by (simp add: assign_pages_def assign_page_step_def assign_single_page_def
          ranked_two_dob [OF w] ebind_def Let_def)
       (simp add: low_bar_settings_def decimal_settings_def default_settings_def decimal_arith_ops dob_page_def mk_page_def)
  have i: "0 < length [dob_page]"
    by simp
  have rk: "ranked_scores decimal_arith (constant_fuzz 0) low_bar_settings ([dob_page] ! 0) two_dob_patients
     = Inr (\<lparr>as_patient_id = ''patient_001'', as_score = 1 / 5,
              as_reasons = [\<lparr>ar_kind = ''dob'', ar_value = ''01/02/1990'', ar_score = 1 / 5\<rparr>]\<rparr>
            # \<lparr>as_patient_id = ''patient_002'', as_score = 1 / 5,
                as_reasons = [\<lparr>ar_kind = ''dob'', ar_value = ''1/2/90'', ar_score = 1 / 5\<rparr>]\<rparr>
            # [])"
    using ranked_two_dob [OF w] by simp
  have mg: "fl_sub decimal_arith
              (as_score \<lparr>as_patient_id = ''patient_001'', as_score = 1 / 5,
                 as_reasons = [\<lparr>ar_kind = ''dob'', ar_value = ''01/02/1990'',
                                ar_score = 1 / 5\<rparr>]\<rparr>)
              (as_score \<lparr>as_patient_id = ''patient_002'', as_score = 1 / 5,
                 as_reasons = [\<lparr>ar_kind = ''dob'', ar_value = ''1/2/90'', ar_score = 1 / 5\<rparr>]\<rparr>)
            \<le> assign_ambiguity_margin low_bar_settings"
    by (simp add: low_bar_settings_def decimal_settings_def default_settings_def decimal_arith_ops)
  show ?thesis
    using ambiguity_flagging [OF run i rk mg]
    by (simp add: run)
qed

text \<open>
  Under the default settings a page whose two candidate clusters both score 0.2 is flagged
  for manual review, gets no patient id, and is listed as unassigned only:
  \<^verbatim>\<open>ambiguous_pages\<close> stays empty.
\<close>

theorem unassigned_not_ambiguous_counterexample:
  "ranked_scores decimal_arith (constant_fuzz 0) decimal_settings dob_page two_dob_patients
     = Inr [\<lparr>as_patient_id = ''patient_001'', as_score = 1 / 5,
              as_reasons = [\<lparr>ar_kind = ''dob'', ar_value = ''01/02/1990'', ar_score = 1 / 5\<rparr>]\<rparr>,
            \<lparr>as_patient_id = ''patient_002'', as_score = 1 / 5,
              as_reasons = [\<lparr>ar_kind = ''dob'', ar_value = ''1/2/90'', ar_score = 1 / 5\<rparr>]\<rparr>]
   \<and> assign_ambiguity_margin decimal_settings = 5 / 100
   \<and> assign_pages decimal_arith (constant_fuzz 0) decimal_settings [dob_page] two_dob_patients
     = Inr \<lparr>assignments = [\<lparr>pa_page_index = 0, pa_patient_id = None, pa_confidence = 1 / 5,
                             pa_reasons = [], pa_manual_review = True\<rparr>],
            unassigned_pages = [0], ambiguous_pages = []\<rparr>"
  by (simp add: assign_pages_def assign_page_step_def assign_single_page_def
        ranked_two_dob [OF refl] ebind_def Let_def)
     (simp add: decimal_settings_def default_settings_def decimal_arith_ops dob_page_def mk_page_def)

end
